theory Spec2Isabelle
  imports Main
begin

section \<open>The quiz-session manager: data model\<close>

text \<open>
  The development embeds the session manager of the repository (the file holding
  \<^verbatim>\<open>closeSession\<close>, \<^verbatim>\<open>endQuiz\<close>, the action classes, \<^verbatim>\<open>chainActions\<close> and the
  \<^verbatim>\<open>ShiritoriManager\<close> class).

  Conventions of the embedding.
  \<^item> A JavaScript function becomes a state transformer that returns an \<open>outcome\<close>
    together with the new state. \<open>Threw e\<close> is a synchronous exception,
    \<open>Rejected e\<close> a returned promise that rejects, \<open>Resolved v\<close> a returned value
    or a returned promise that fulfils with \<open>v\<close>, \<open>Pending\<close> a returned promise
    that never settles, \<open>NoFuel\<close> the exhaustion of the recursion budget of the model.
  \<^item> Session objects and action objects live in two heaps and are referred to by
    reference, because the registry, the driver and the actions alias them.
  \<^item> The collaborators (session, message sender, save manager, cards, logger, word
    data) are not part of the file. Every call to one of them is recorded in the
    \<open>trace\<close> of the state, newest call first, and its reply is taken from an
    environment \<open>env\<close> that sees the trace so far, so a collaborator may answer each
    call differently. Plain accessors of a session (\<^verbatim>\<open>getLocationId\<close>,
    \<^verbatim>\<open>getOwnerId\<close>, \<^verbatim>\<open>getGameMode\<close>, \<^verbatim>\<open>getName\<close>, \<^verbatim>\<open>getMessageSender\<close>) are field reads.
  \<^item> Asynchronous code runs in big steps: a promise chain is evaluated in source
    order. While an action waits on the promise it created itself, the environment
    supplies the commands and reveal timers that arrive before its own timer fires;
    a command that arrives runs to its end before the wait goes on.
  \<^item> A notification is identified by its method and its receiver; the arguments that
    the code reads from accessors of the session (name, scores, unanswered cards,
    score limit, game mode) are not recorded.
  \<^item> The two tables of the registry are plain objects created with \<^verbatim>\<open>{}\<close>; reading
    them at a key follows the prototype chain (\<open>lookup\<close> below).
  \<^item> \<^verbatim>\<open>stopAllQuizzesCommand\<close> and the review-deck tables of the registry are not
    embedded: no definition below and no theorem depends on them.
\<close>

type_synonym locationId = string
type_synonym userId = string
type_synonym fault = string
type_synonym sref = nat
type_synonym aref = nat

datatype 'a outcome = Threw fault | Rejected fault | Resolved 'a | Pending | NoFuel

datatype 'a reply = Throws fault | Rejects fault | Returns 'a | Hangs

datatype 'a sreply = Raises fault | Gives 'a

record gameMode =
  isReviewMode :: bool
  onlyOwnerOrAdminCanStop :: bool

record session =
  getLocationId :: locationId
  getOwnerId :: userId
  getName :: string
  getGameMode :: gameMode
  saveRequestedByUserId :: "userId option"

record card =
  question :: string
  wasPreprocessed :: bool
  answerTimeLimitInMs :: nat
  numberOfReveals :: nat
  additionalAnswerWaitTimeInMs :: nat
  newQuestionDelayAfterAnsweredInMs :: nat
  newQuestionDelayAfterUnansweredInMs :: nat

datatype action_class =
    EndQuizForErrorAction
  | EndQuizScoreLimitReachedAction
  | EndQuizNoQuestionsLeftAction
  | EndQuizTooManyWrongAnswersAction
  | ShowAnswersAction
  | ShowWrongAnswerAction bool
  | AskQuestionAction
  | AskInitialQuestionAction
  | StartAction
  | WaitAction nat aref
  | SaveAction userId
  | EndQuizForErrorAction_noSession

text \<open>
  The promise an action creates with \<^verbatim>\<open>new Promise\<close> in its \<^verbatim>\<open>do\<close>, as seen through
  the resolver the action keeps in \<^verbatim>\<open>this.fulfill_\<close>: a promise settles once.
  A promise fulfilled with \<open>None\<close> was fulfilled with \<^verbatim>\<open>undefined\<close>.
\<close>

datatype settlement = Unsettled | Fulfilled "aref option" | Failed fault

text \<open>
  The fields \<^verbatim>\<open>session_\<close>, \<^verbatim>\<open>fulfill_\<close> (with \<^verbatim>\<open>reject_\<close>, the rejecter of the same
  promise), \<^verbatim>\<open>readyForAnswers_\<close> and \<^verbatim>\<open>shownQuestionId_\<close> of an action object; a name
  cannot end in an underscore here, so they are prefixed with \<open>this\<close>. The class
  and the constructor arguments that never change are in \<open>cls\<close>.

  Every constructor is given a session, with one exception: the driver builds its
  EndQuizForErrorAction from the value it read in the registry, which at an inherited
  key is not a session (see \<open>lookup\<close>). Such an object has the class
  \<open>EndQuizForErrorAction_noSession\<close>; its \<^verbatim>\<open>session_\<close> is an object without the methods
  of a session, and its \<open>this_session\<close> is never read.
\<close>

record action =
  cls :: action_class
  this_session :: sref
  this_fulfill :: "settlement option"
  this_readyForAnswers :: bool
  this_shownQuestionId :: "nat option"

datatype sender = SessionSender sref | GlobalSender

datatype notification =
    NotifyStarting nat
  | NotifyStopFailedUserNotAuthorized
  | NotifyQuizEndedUserCanceled userId
  | NotifySaveFailedIsReview
  | NotifySaveFailedNotOwner
  | NotifySaving
  | NotifySaveFailedNoSpace nat
  | NotifyQuizEndedError
  | NotifyQuizEndedScoreLimitReached
  | NotifyQuizEndedNoQuestionsLeft
  | NotifyQuizEndedTooManyWrongAnswers
  | NotifySaveSuccessful
  | OutputQuestionScorers
  | ShowWrongAnswer bool

datatype call =
    Notify sender notification
  | ShowQuestion sref string "nat option"
  | Finalize sref bool
  | ClearTimers sref
  | AddTimer sref nat
  | MarkCurrentCardAnswered sref
  | MarkCurrentCardUnanswered sref
  | SetCurrentCard sref card
  | TryAcceptAnswer sref userId string string
  | CheckTooManyWrongAnswers sref
  | CheckForWin sref
  | GetNextCard sref
  | GetCurrentCard sref
  | Preprocess card
  | CreateQuestion card sref
  | CreateTextQuestionWithHint sref
  | GetClientDelegate sref
  | GetRandomWord
  | CreateSaveData sref
  | Save sref userId
  | GetSaveMementos userId
  | LogFailure string "fault option"
  | LogSuccess string

text \<open>What arrives from outside while an action waits on its own promise.\<close>

datatype arrival =
    SkipArrives locationId
  | InputArrives locationId userId string string
  | StopArrives locationId userId bool
  | SaveArrives locationId userId
  | RevealTimerFires

record env =
  effect :: "call list \<Rightarrow> call \<Rightarrow> unit reply"
  answer :: "call list \<Rightarrow> call \<Rightarrow> bool sreply"
  nextCard :: "call list \<Rightarrow> sref \<Rightarrow> card option sreply"
  currentCard :: "call list \<Rightarrow> sref \<Rightarrow> card option"
  preprocess :: "call list \<Rightarrow> card \<Rightarrow> card option reply"
  createQuestion :: "call list \<Rightarrow> card \<Rightarrow> sref \<Rightarrow> string reply"
  createTextQuestionWithHint :: "call list \<Rightarrow> sref \<Rightarrow> string option reply"
  showQuestion :: "call list \<Rightarrow> sref \<Rightarrow> string \<Rightarrow> nat reply"
  getSaveMementos :: "call list \<Rightarrow> userId \<Rightarrow> string list reply"
  messageSenderBound :: bool
  arrivals :: "call list \<Rightarrow> arrival list"
  toLowerCase :: "string \<Rightarrow> string"

record state =
  sessionForLocationId :: "locationId \<rightharpoonup> sref"
  currentActionForLocationId :: "locationId \<rightharpoonup> aref"
  sessions :: "sref \<Rightarrow> session"
  actions :: "aref \<Rightarrow> action"
  nextRef :: aref
  trace :: "call list"

text \<open>
  The tables are plain objects, so \<^verbatim>\<open>table[key]\<close> finds the entry stored under the key
  and otherwise what \<^verbatim>\<open>Object.prototype\<close> provides under that name. The fields of the
  state hold the stored entries; \<open>inherited\<close> lists the names of \<^verbatim>\<open>Object.prototype\<close>.
  What is found at such a name is a function (for \<^verbatim>\<open>__proto__\<close> the prototype object
  itself): it is truthy and has none of the methods that the code calls on a session or
  an action. \<^verbatim>\<open>delete table[key]\<close> removes a stored entry only.

  An assignment \<^verbatim>\<open>table[key] = v\<close> stores an entry, at every key but \<^verbatim>\<open>__proto__\<close>, where
  it would replace the prototype of the table. The assignment of
  \<^verbatim>\<open>setSessionForLocationId\<close> follows an assertion that fails at every inherited name,
  and the assignment of \<^verbatim>\<open>chainActions\<close> is reached from \<^verbatim>\<open>startSession\<close> only, behind
  the same assertion; the embedding stores an entry there as at any other key.
\<close>

definition inherited :: "locationId \<Rightarrow> bool" where
  "inherited k =
     (k \<in> set [''constructor'', ''__defineGetter__'', ''__defineSetter__'', ''hasOwnProperty'',
                ''__lookupGetter__'', ''__lookupSetter__'', ''isPrototypeOf'',
                ''propertyIsEnumerable'', ''toString'', ''valueOf'', ''__proto__'',
                ''toLocaleString''])"

datatype 'a slot = Absent | Inherited | Own 'a

definition lookup :: "(locationId \<rightharpoonup> 'a) \<Rightarrow> locationId \<Rightarrow> 'a slot" where
  "lookup table k =
     (case table k of
        Some v \<Rightarrow> Own v
      | None \<Rightarrow> if inherited k then Inherited else Absent)"

definition LOGGER_TITLE :: string where
  "LOGGER_TITLE = ''QUIZ''"

definition INITIAL_DELAY_IN_MS :: nat where
  "INITIAL_DELAY_IN_MS = 5000"

definition REVEAL_INTERVAL_IN_MS :: nat where
  "REVEAL_INTERVAL_IN_MS = 8000"

definition MAX_SAVES_PER_USER :: nat where
  "MAX_SAVES_PER_USER = 5"

definition END_STATUS_ERROR :: nat where
  "END_STATUS_ERROR = 1"

section \<open>Promises, exceptions and collaborator calls\<close>

text \<open>\<^verbatim>\<open>p.then(h)\<close>: the handler runs on fulfilment; what it throws rejects the result.\<close>

definition absorb :: "'a outcome \<times> state \<Rightarrow> 'a outcome \<times> state" where
  "absorb r = (case r of (Threw e, s) \<Rightarrow> (Rejected e, s) | _ \<Rightarrow> r)"

definition thenP ::
  "'a outcome \<times> state \<Rightarrow> ('a \<Rightarrow> state \<Rightarrow> 'b outcome \<times> state) \<Rightarrow> 'b outcome \<times> state" where
  "thenP p h = (case p of
      (Resolved v, s) \<Rightarrow> absorb (h v s)
    | (Threw e, s) \<Rightarrow> (Threw e, s)
    | (Rejected e, s) \<Rightarrow> (Rejected e, s)
    | (Pending, s) \<Rightarrow> (Pending, s)
    | (NoFuel, s) \<Rightarrow> (NoFuel, s))"

text \<open>\<^verbatim>\<open>p.catch(h)\<close>: the handler runs on rejection only.\<close>

definition catchP ::
  "'a outcome \<times> state \<Rightarrow> (fault \<Rightarrow> state \<Rightarrow> 'a outcome \<times> state) \<Rightarrow> 'a outcome \<times> state" where
  "catchP p h = (case p of (Rejected e, s) \<Rightarrow> absorb (h e s) | _ \<Rightarrow> p)"

text \<open>\<^verbatim>\<open>try { body } catch (err) { handler }\<close>: the handler runs on a synchronous throw only.\<close>

definition tryS ::
  "(state \<Rightarrow> 'a outcome \<times> state) \<Rightarrow> (fault \<Rightarrow> state \<Rightarrow> 'a outcome \<times> state) \<Rightarrow>
   state \<Rightarrow> 'a outcome \<times> state" where
  "tryS body handler s = (case body s of (Threw e, s') \<Rightarrow> handler e s' | r \<Rightarrow> r)"

text \<open>Sequencing of a statement whose value is used by the rest of a synchronous body.\<close>

definition seqS ::
  "'a outcome \<times> state \<Rightarrow> ('a \<Rightarrow> state \<Rightarrow> 'b outcome \<times> state) \<Rightarrow> 'b outcome \<times> state" where
  "seqS p k = (case p of
      (Resolved v, s) \<Rightarrow> k v s
    | (Threw e, s) \<Rightarrow> (Threw e, s)
    | (Rejected e, s) \<Rightarrow> (Rejected e, s)
    | (Pending, s) \<Rightarrow> (Pending, s)
    | (NoFuel, s) \<Rightarrow> (NoFuel, s))"

definition record_call :: "call \<Rightarrow> state \<Rightarrow> state" where
  "record_call c s = s\<lparr>trace := c # trace s\<rparr>"

definition of_reply :: "'a reply \<Rightarrow> 'a outcome" where
  "of_reply r = (case r of
      Throws e \<Rightarrow> Threw e | Rejects e \<Rightarrow> Rejected e | Returns v \<Rightarrow> Resolved v | Hangs \<Rightarrow> Pending)"

definition of_sreply :: "'a sreply \<Rightarrow> 'a outcome" where
  "of_sreply r = (case r of Raises e \<Rightarrow> Threw e | Gives v \<Rightarrow> Resolved v)"

text \<open>A collaborator call whose result the caller chains on or returns.\<close>

definition perform :: "env \<Rightarrow> call \<Rightarrow> state \<Rightarrow> unit outcome \<times> state" where
  "perform E c s = (of_reply (effect E (trace s) c), record_call c s)"

text \<open>A collaborator call made as a statement: only a synchronous throw is seen.\<close>

definition invoke :: "env \<Rightarrow> call \<Rightarrow> state \<Rightarrow> unit outcome \<times> state" where
  "invoke E c s =
     ((case effect E (trace s) c of Throws e \<Rightarrow> Threw e | _ \<Rightarrow> Resolved ()), record_call c s)"

definition ask :: "env \<Rightarrow> call \<Rightarrow> state \<Rightarrow> bool outcome \<times> state" where
  "ask E c s = (of_sreply (answer E (trace s) c), record_call c s)"

definition logFailure :: "string \<Rightarrow> fault option \<Rightarrow> state \<Rightarrow> state" where
  "logFailure msg err s = record_call (LogFailure msg err) s"

definition logSuccess :: "string \<Rightarrow> state \<Rightarrow> state" where
  "logSuccess msg s = record_call (LogSuccess msg) s"

text \<open>
  Modelled from the spec: \<^verbatim>\<open>Util.retryPromise\<close>, the retry helper, is not among the
  sources. The spec describes it as a bounded-attempt wrapper that bounds the attempts
  at the given number: the factory is tried again after a rejection while attempts
  remain, and the last rejection is passed on. A synchronous throw of the first
  attempt leaves the helper as a throw; a later one happens inside a promise handler
  and is a rejection.
\<close>

fun retryPromise ::
  "(state \<Rightarrow> 'a outcome \<times> state) \<Rightarrow> nat \<Rightarrow> state \<Rightarrow> 'a outcome \<times> state" where
  "retryPromise promiseFactory (Suc (Suc n)) s =
     (case promiseFactory s of
        (Rejected e, s') \<Rightarrow> absorb (retryPromise promiseFactory (Suc n) s')
      | r \<Rightarrow> r)"
| "retryPromise promiseFactory n s = promiseFactory s"

section \<open>Action objects\<close>

definition new_action :: "action_class \<Rightarrow> sref \<Rightarrow> state \<Rightarrow> aref \<times> state" where
  "new_action c sid s =
     (nextRef s,
      s\<lparr>actions := (actions s)(nextRef s :=
           \<lparr>cls = c, this_session = sid, this_fulfill = None, this_readyForAnswers = False,
            this_shownQuestionId = None\<rparr>),
        nextRef := Suc (nextRef s)\<rparr>)"

text \<open>
  Every class defines \<^verbatim>\<open>do\<close>; \<^verbatim>\<open>stop\<close>, \<^verbatim>\<open>skip\<close> and \<^verbatim>\<open>tryAcceptUserInput\<close> are
  defined by some classes only, and the commands test for them.
\<close>

definition has_stop :: "action_class \<Rightarrow> bool" where
  "has_stop c = (case c of
      ShowAnswersAction \<Rightarrow> True | AskQuestionAction \<Rightarrow> True | WaitAction d a \<Rightarrow> True
    | _ \<Rightarrow> False)"

definition has_skip :: "action_class \<Rightarrow> bool" where
  "has_skip c = (c = AskQuestionAction)"

definition has_tryAcceptUserInput :: "action_class \<Rightarrow> bool" where
  "has_tryAcceptUserInput c = (c = ShowAnswersAction \<or> c = AskQuestionAction)"

definition canBeSaved :: "action_class \<Rightarrow> bool" where
  "canBeSaved c = (c = AskQuestionAction)"

text \<open>Calling the resolver or the rejecter of a promise: a settled promise stays as it is.\<close>

definition settle :: "aref \<Rightarrow> settlement \<Rightarrow> state \<Rightarrow> state" where
  "settle a v s =
     (if this_fulfill (actions s a) = Some Unsettled
      then s\<lparr>actions := (actions s)(a := (actions s a)\<lparr>this_fulfill := Some v\<rparr>)\<rparr>
      else s)"

text \<open>\<^verbatim>\<open>stop()\<close> of ShowAnswersAction, AskQuestionAction and WaitAction.\<close>

definition stop :: "aref \<Rightarrow> state \<Rightarrow> state" where
  "stop a s = (if this_fulfill (actions s a) \<noteq> None then settle a (Fulfilled None) s else s)"

section \<open>Stopping\<close>

definition closeSession :: "env \<Rightarrow> sref option \<Rightarrow> bool \<Rightarrow> state \<Rightarrow> unit outcome \<times> state" where
  "closeSession E session gameOver s =
     (case session of
        None \<Rightarrow> (Resolved (), s)
      | Some sid \<Rightarrow>
          (let locationId = getLocationId (sessions s sid);
               s1 = s\<lparr>sessionForLocationId := (sessionForLocationId s)(locationId := None)\<rparr>;
               s2 = s1\<lparr>currentActionForLocationId :=
                         (currentActionForLocationId s1)(locationId := None)\<rparr>
           in perform E (Finalize sid gameOver) s2))"

definition endQuiz ::
  "env \<Rightarrow> bool \<Rightarrow> sref option \<Rightarrow> sender \<Rightarrow> notification \<Rightarrow> state \<Rightarrow> unit outcome \<times> state" where
  "endQuiz E gameOver session notifier notifyDelegate s =
     (case session of
        None \<Rightarrow> (Resolved (), s)
      | Some sid \<Rightarrow>
          (let locationId = getLocationId (sessions s sid);
               s1 = (case lookup (currentActionForLocationId s) locationId of
                       Absent \<Rightarrow> s
                     | Inherited \<Rightarrow> s
                     | Own a \<Rightarrow>
                         (let s' = (if has_stop (cls (actions s a)) then stop a s else s)
                          in s'\<lparr>currentActionForLocationId :=
                                  (currentActionForLocationId s')(locationId := None)\<rparr>))
           in tryS
                (\<lambda>s. thenP
                   (catchP
                      (retryPromise (perform E (Notify notifier notifyDelegate)) 3 s)
                      (\<lambda>err s. (Resolved (),
                         logFailure ''Error ending quiz. Continuing and closing session.''
                           (Some err) s)))
                   (\<lambda>_. closeSession E (Some sid) True))
                (\<lambda>err s. closeSession E (Some sid) True
                   (logFailure ''Error ending quiz. Continuing and closing session.''
                      (Some err) s))
                s1))"

section \<open>Methods of the actions that commands reach\<close>

text \<open>\<^verbatim>\<open>AskQuestionAction.skip\<close>.\<close>

definition skip :: "env \<Rightarrow> aref \<Rightarrow> state \<Rightarrow> unit outcome \<times> state" where
  "skip E a s =
     tryS
       (\<lambda>s. if this_fulfill (actions s a) \<noteq> None
            then (let session = this_session (actions s a)
                  in seqS (invoke E (MarkCurrentCardUnanswered session) s)
                       (\<lambda>_ s. (let (next, s') = new_action (ShowWrongAnswerAction True) session s
                               in (Resolved (), settle a (Fulfilled (Some next)) s'))))
            else (Resolved (), s))
       (\<lambda>err s. (Resolved (), logFailure ''Failed to skip'' (Some err) s))
       s"

text \<open>
  \<^verbatim>\<open>tryAcceptUserInput\<close> of AskQuestionAction and of ShowAnswersAction. In the
  former, an accepted answer calls \<^verbatim>\<open>this.fulfill_\<close>, which is a TypeError while the
  field is still undefined.
\<close>

definition tryAcceptUserInput ::
  "env \<Rightarrow> aref \<Rightarrow> userId \<Rightarrow> string \<Rightarrow> string \<Rightarrow> state \<Rightarrow> bool outcome \<times> state" where
  "tryAcceptUserInput E a userId userName input s =
     (let session = this_session (actions s a) in
      case cls (actions s a) of
        AskQuestionAction \<Rightarrow>
          (if \<not> this_readyForAnswers (actions s a) then (Resolved False, s)
           else seqS (ask E (TryAcceptAnswer session userId userName input) s)
                  (\<lambda>accepted s.
                     if accepted
                     then (let (next, s') = new_action ShowAnswersAction session s
                           in if this_fulfill (actions s' a) = None
                              then (Threw ''TypeError: this.fulfill_ is not a function'', s')
                              else (Resolved accepted, settle a (Fulfilled (Some next)) s'))
                     else (Resolved accepted, s)))
      | ShowAnswersAction \<Rightarrow> ask E (TryAcceptAnswer session userId userName input) s
      | _ \<Rightarrow> (Threw ''TypeError: tryAcceptUserInput is not a function'', s))"

section \<open>Commands\<close>

definition stopQuizCommand ::
  "env \<Rightarrow> locationId \<Rightarrow> userId \<Rightarrow> bool \<Rightarrow> state \<Rightarrow> unit outcome \<times> state" where
  "stopQuizCommand E locationId cancelingUserId cancelingUserIsAdmin s =
     (case lookup (sessionForLocationId s) locationId of
        Own session \<Rightarrow>
          (let gameMode = getGameMode (sessions s session)
           in if onlyOwnerOrAdminCanStop gameMode \<and> \<not> cancelingUserIsAdmin
                 \<and> getOwnerId (sessions s session) \<noteq> cancelingUserId
              then perform E (Notify (SessionSender session) NotifyStopFailedUserNotAuthorized) s
              else endQuiz E True (Some session) (SessionSender session)
                     (NotifyQuizEndedUserCanceled cancelingUserId) s)
      | Inherited \<Rightarrow> (Threw ''TypeError: session.getMessageSender is not a function'', s)
      | Absent \<Rightarrow> (Resolved (), s))"

definition skipCommand :: "env \<Rightarrow> locationId \<Rightarrow> state \<Rightarrow> bool outcome \<times> state" where
  "skipCommand E locationId s =
     (case lookup (currentActionForLocationId s) locationId of
        Own a \<Rightarrow>
          (if has_skip (cls (actions s a))
           then seqS (skip E a s) (\<lambda>_ s. (Resolved True, s))
           else (Resolved False, s))
      | Inherited \<Rightarrow> (Resolved False, s)
      | Absent \<Rightarrow> (Resolved False, s))"

text \<open>Truthiness of \<^verbatim>\<open>session.saveRequestedByUserId\<close>: undefined and the empty string are falsy.\<close>

definition truthy :: "string option \<Rightarrow> bool" where
  "truthy v = (case v of None \<Rightarrow> False | Some x \<Rightarrow> x \<noteq> [])"

text \<open>The callback that \<^verbatim>\<open>saveQuizCommand\<close> chains on the fetched mementos.\<close>

definition saveQuizCommand_then ::
  "env \<Rightarrow> sref \<Rightarrow> userId \<Rightarrow> string list \<Rightarrow> state \<Rightarrow> bool option outcome \<times> state" where
  "saveQuizCommand_then E session savingUserId mementos s =
     (let hasSpace = length mementos < MAX_SAVES_PER_USER
      in if truthy (saveRequestedByUserId (sessions s session)) then (Resolved None, s)
         else if hasSpace
         then apfst (map_outcome (\<lambda>_. None))
                (perform E (Notify (SessionSender session) NotifySaving)
                   (s\<lparr>sessions := (sessions s)(session :=
                         (sessions s session)\<lparr>saveRequestedByUserId := Some savingUserId\<rparr>)\<rparr>))
         else apfst (map_outcome (\<lambda>_. None))
                (perform E (Notify (SessionSender session)
                   (NotifySaveFailedNoSpace MAX_SAVES_PER_USER)) s))"

definition saveQuizCommand ::
  "env \<Rightarrow> locationId \<Rightarrow> userId \<Rightarrow> state \<Rightarrow> bool option outcome \<times> state" where
  "saveQuizCommand E locationId savingUserId s =
     (case lookup (sessionForLocationId s) locationId of
        Absent \<Rightarrow> (Resolved (Some False), s)
      | Inherited \<Rightarrow> (Threw ''TypeError: session.getGameMode is not a function'', s)
      | Own session \<Rightarrow>
          (if isReviewMode (getGameMode (sessions s session))
           then apfst (map_outcome (\<lambda>_. None))
                  (perform E (Notify (SessionSender session) NotifySaveFailedIsReview) s)
           else (let ownerId = getOwnerId (sessions s session)
                 in if savingUserId \<noteq> ownerId
                    then apfst (map_outcome (\<lambda>_. None))
                           (perform E (Notify (SessionSender session) NotifySaveFailedNotOwner) s)
                    else thenP
                           (of_reply (getSaveMementos E (trace s) savingUserId),
                            record_call (GetSaveMementos savingUserId) s)
                           (saveQuizCommand_then E session savingUserId))))"

definition isSessionInProgressAtLocation :: "state \<Rightarrow> locationId \<Rightarrow> bool" where
  "isSessionInProgressAtLocation s locationId =
     (lookup (sessionForLocationId s) locationId \<noteq> Absent)"

text \<open>
  Modelled from the spec: the global \<^verbatim>\<open>assert\<close> is not among the sources. The spec calls
  its use a defensive assertion whose violation is an error of the caller: it throws an
  AssertionError that carries the message when its condition is false.
\<close>

definition assert :: "bool \<Rightarrow> string \<Rightarrow> state \<Rightarrow> unit outcome \<times> state" where
  "assert ok msg s = (if ok then (Resolved (), s) else (Threw (''AssertionError: '' @ msg), s))"

definition setSessionForLocationId :: "sref \<Rightarrow> locationId \<Rightarrow> state \<Rightarrow> unit outcome \<times> state" where
  "setSessionForLocationId session locationId s =
     seqS (assert (\<not> isSessionInProgressAtLocation s locationId)
             ''Already have a session for that loction ID'' s)
       (\<lambda>_ s. (Resolved (),
          s\<lparr>sessionForLocationId := (sessionForLocationId s)(locationId \<mapsto> session)\<rparr>))"

definition verifySessionNotInProgress :: "locationId \<Rightarrow> state \<Rightarrow> unit outcome \<times> state" where
  "verifySessionNotInProgress locationId s =
     assert (\<not> isSessionInProgressAtLocation s locationId)
       ''Already a session in progress there.'' s"

text \<open>\<^verbatim>\<open>ShiritoriManager.processUserInput\<close>.\<close>

definition processUserInput ::
  "env \<Rightarrow> locationId \<Rightarrow> userId \<Rightarrow> string \<Rightarrow> string \<Rightarrow> state \<Rightarrow> bool outcome \<times> state" where
  "processUserInput E locationId userId userName input0 s =
     (let input = toLowerCase E input0
      in case lookup (currentActionForLocationId s) locationId of
           Absent \<Rightarrow> (Resolved False, s)
         | Inherited \<Rightarrow> (Resolved False, s)
         | Own currentAction \<Rightarrow>
             (if has_tryAcceptUserInput (cls (actions s currentAction))
              then tryAcceptUserInput E currentAction userId userName input s
              else (Resolved False, s)))"

text \<open>\<^verbatim>\<open>ShiritoriManager.stop\<close>.\<close>

definition stop_manager ::
  "env \<Rightarrow> locationId \<Rightarrow> userId \<Rightarrow> bool \<Rightarrow> state \<Rightarrow> unit outcome \<times> state" where
  "stop_manager E locationId cancelingUserId cancelingUserIsAdmin s =
     stopQuizCommand E locationId cancelingUserId cancelingUserIsAdmin s"

section \<open>Waiting on the promise of an action\<close>

definition settled_outcome :: "aref \<Rightarrow> state \<Rightarrow> aref option outcome" where
  "settled_outcome a s =
     (case this_fulfill (actions s a) of
        Some (Fulfilled v) \<Rightarrow> Resolved v
      | Some (Failed e) \<Rightarrow> Rejected e
      | _ \<Rightarrow> Pending)"

definition set_fulfill :: "aref \<Rightarrow> state \<Rightarrow> state" where
  "set_fulfill a s = s\<lparr>actions := (actions s)(a := (actions s a)\<lparr>this_fulfill := Some Unsettled\<rparr>)\<rparr>"

text \<open>
  \<^verbatim>\<open>session.addTimer(timer)\<close> inside the executor of \<^verbatim>\<open>new Promise\<close>, or inside a
  promise handler that ends in \<^verbatim>\<open>this.reject_\<close>: a throw rejects the promise.
  The result tells whether the statement completed.
\<close>

definition addTimer :: "env \<Rightarrow> aref \<Rightarrow> nat \<Rightarrow> state \<Rightarrow> bool \<times> state" where
  "addTimer E a delay s =
     (case invoke E (AddTimer (this_session (actions s a)) delay) s of
        (Threw e, s') \<Rightarrow> (False, settle a (Failed e) s')
      | (_, s') \<Rightarrow> (True, s'))"

text \<open>
  \<^verbatim>\<open>AskQuestionAction.scheduleReveal_\<close>: returns the number of reveals that remain
  scheduled.
\<close>

definition scheduleReveal :: "env \<Rightarrow> aref \<Rightarrow> nat \<Rightarrow> state \<Rightarrow> nat \<times> state" where
  "scheduleReveal E a remaining s =
     (if remaining = 0 then (0, s)
      else (case addTimer E a REVEAL_INTERVAL_IN_MS s of
              (True, s') \<Rightarrow> (remaining, s')
            | (False, s') \<Rightarrow> (0, s')))"

text \<open>The callback of the reveal timer, with \<open>remaining\<close> reveals still scheduled.\<close>

definition reveal :: "env \<Rightarrow> aref \<Rightarrow> nat \<Rightarrow> state \<Rightarrow> nat \<times> state" where
  "reveal E a remaining s =
     (let session = this_session (actions s a);
          s0 = record_call (GetCurrentCard session) s;
          s1 = record_call (CreateTextQuestionWithHint session) s0
      in case createTextQuestionWithHint E (trace s0) session of
           Throws e \<Rightarrow> (0, settle a (Failed e) s1)
         | Rejects e \<Rightarrow> (0, settle a (Failed e) s1)
         | Hangs \<Rightarrow> (0, s1)
         | Returns hint \<Rightarrow>
             (if truthy hint
              then (let s2 = record_call
                               (ShowQuestion session (the hint)
                                  (this_shownQuestionId (actions s1 a))) s1
                    in case showQuestion E (trace s1) session (the hint) of
                         Throws e \<Rightarrow> (0, settle a (Failed e) s2)
                       | Rejects e \<Rightarrow>
                           scheduleReveal E a (remaining - 1)
                             (logFailure ''Failed to update reveal.'' (Some e) s2)
                       | Hangs \<Rightarrow> (0, s2)
                       | Returns _ \<Rightarrow> scheduleReveal E a (remaining - 1) s2)
              else scheduleReveal E a (remaining - 1) s1))"

definition run_command :: "env \<Rightarrow> arrival \<Rightarrow> state \<Rightarrow> state" where
  "run_command E x s =
     (case x of
        SkipArrives locationId \<Rightarrow> snd (skipCommand E locationId s)
      | InputArrives locationId userId userName input \<Rightarrow>
          snd (processUserInput E locationId userId userName input s)
      | StopArrives locationId userId isAdmin \<Rightarrow>
          snd (stopQuizCommand E locationId userId isAdmin s)
      | SaveArrives locationId userId \<Rightarrow> snd (saveQuizCommand E locationId userId s)
      | RevealTimerFires \<Rightarrow> s)"

text \<open>
  What happens while the promise of action \<open>a\<close> is pending: the arrivals are taken in
  order until one of them settles the promise; a reveal timer fires only while reveals
  remain scheduled.
\<close>

fun await :: "env \<Rightarrow> aref \<Rightarrow> nat \<Rightarrow> arrival list \<Rightarrow> state \<Rightarrow> state" where
  "await E a k [] s = s"
| "await E a k (x # xs) s =
     (if this_fulfill (actions s a) \<noteq> Some Unsettled then s
      else if x = RevealTimerFires
      then (if k = 0 then await E a k xs s
            else (case reveal E a k s of (k', s') \<Rightarrow> await E a k' xs s'))
      else await E a k xs (run_command E x s))"

section \<open>The actions\<close>

text \<open>The handler that EndQuizForErrorAction runs in both of its catch clauses.\<close>

definition closeAndRethrow :: "env \<Rightarrow> sref \<Rightarrow> fault \<Rightarrow> state \<Rightarrow> aref option outcome \<times> state" where
  "closeAndRethrow E session err s =
     thenP
       (closeSession E (Some session) True
          (logFailure ''Error ending quiz gracefully for error. Attempting to close session.''
             None s))
       (\<lambda>_ s. (Threw err, logSuccess ''Session closed successfully.'' s))"

text \<open>
  In \<^verbatim>\<open>EndQuizForErrorAction.do\<close> the identifier \<^verbatim>\<open>messageSender\<close> is free: the method
  declares \<^verbatim>\<open>clientDelegate\<close> only. Whether the surrounding program binds the identifier
  is a parameter of the environment; reading an unbound identifier is a ReferenceError.
\<close>

definition do_EndQuizForError :: "env \<Rightarrow> aref \<Rightarrow> state \<Rightarrow> aref option outcome \<times> state" where
  "do_EndQuizForError E a s =
     (let session = this_session (actions s a)
      in tryS
           (\<lambda>s. seqS (invoke E (GetClientDelegate session)
                        (logFailure ''Stopping for error'' None s))
                  (\<lambda>_ s. if \<not> messageSenderBound E
                         then (Threw ''ReferenceError: messageSender is not defined'', s)
                         else catchP
                                (apfst (map_outcome (\<lambda>_. None))
                                   (endQuiz E True (Some session) GlobalSender
                                      NotifyQuizEndedError s))
                                (closeAndRethrow E session)))
           (closeAndRethrow E session)
           s)"

text \<open>
  \<^verbatim>\<open>EndQuizForErrorAction.do\<close> of the object whose \<^verbatim>\<open>session_\<close> is not a session:
  \<^verbatim>\<open>session.getClientDelegate\<close> is not a function, and in the catch clause
  \<^verbatim>\<open>closeSession\<close> fails in the same way at \<^verbatim>\<open>session.getLocationId\<close>.
\<close>

definition do_EndQuizForError_noSession ::
  "env \<Rightarrow> aref \<Rightarrow> state \<Rightarrow> aref option outcome \<times> state" where
  "do_EndQuizForError_noSession E a s =
     tryS
       (\<lambda>s. (Threw ''TypeError: session.getClientDelegate is not a function'',
               logFailure ''Stopping for error'' None s))
       (\<lambda>err s. (Threw ''TypeError: session.getLocationId is not a function'',
                  logFailure
                    ''Error ending quiz gracefully for error. Attempting to close session.''
                    None s))
       s"

definition do_EndQuizScoreLimitReached ::
  "env \<Rightarrow> aref \<Rightarrow> state \<Rightarrow> aref option outcome \<times> state" where
  "do_EndQuizScoreLimitReached E a s =
     (let session = this_session (actions s a)
      in apfst (map_outcome (\<lambda>_. None))
           (endQuiz E True (Some session) (SessionSender session)
              NotifyQuizEndedScoreLimitReached s))"

definition do_EndQuizNoQuestionsLeft ::
  "env \<Rightarrow> aref \<Rightarrow> state \<Rightarrow> aref option outcome \<times> state" where
  "do_EndQuizNoQuestionsLeft E a s =
     (let session = this_session (actions s a)
      in apfst (map_outcome (\<lambda>_. None))
           (endQuiz E True (Some session) (SessionSender session)
              NotifyQuizEndedNoQuestionsLeft s))"

definition do_EndQuizTooManyWrongAnswers ::
  "env \<Rightarrow> aref \<Rightarrow> state \<Rightarrow> aref option outcome \<times> state" where
  "do_EndQuizTooManyWrongAnswers E a s =
     (let session = this_session (actions s a)
      in apfst (map_outcome (\<lambda>_. None))
           (endQuiz E True (Some session) (SessionSender session)
              NotifyQuizEndedTooManyWrongAnswers s))"

text \<open>The callback of the timer that ShowAnswersAction sets.\<close>

definition showAnswers_timer :: "env \<Rightarrow> aref \<Rightarrow> card \<Rightarrow> state \<Rightarrow> state" where
  "showAnswers_timer E a shownCard s =
     (let session = this_session (actions s a)
      in case tryS
                (\<lambda>s. seqS (invoke E (MarkCurrentCardAnswered session) s)
                   (\<lambda>_ s. seqS
                      (case perform E (Notify (SessionSender session) OutputQuestionScorers) s of
                         (Rejected err, s') \<Rightarrow>
                           (Resolved (),
                            logFailure ''Failed to output the scoredboard.'' (Some err) s')
                       | (Threw err, s') \<Rightarrow> (Threw err, s')
                       | (_, s') \<Rightarrow> (Resolved (), s'))
                      (\<lambda>_ s. seqS (ask E (CheckForWin session) s)
                         (\<lambda>win s.
                            if win
                            then (let (next, s') =
                                        new_action EndQuizScoreLimitReachedAction session s
                                  in (Resolved (), settle a (Fulfilled (Some next)) s'))
                            else (let (askQuestion, s1) = new_action AskQuestionAction session s;
                                      (next, s2) =
                                        new_action
                                          (WaitAction
                                             (newQuestionDelayAfterAnsweredInMs shownCard)
                                             askQuestion)
                                          session s1
                                  in (Resolved (), settle a (Fulfilled (Some next)) s2))))))
                (\<lambda>err s. (Resolved (), settle a (Failed err) s))
                s of
           (_, s') \<Rightarrow> s')"

definition do_ShowAnswers :: "env \<Rightarrow> aref \<Rightarrow> state \<Rightarrow> aref option outcome \<times> state" where
  "do_ShowAnswers E a s =
     (let session = this_session (actions s a);
          shownCard = currentCard E (trace s) session;
          s1 = set_fulfill a (record_call (GetCurrentCard session) s)
      in case shownCard of
           None \<Rightarrow>
             (let s2 = settle a (Failed ''TypeError: cannot read properties of undefined'') s1
              in (settled_outcome a s2, s2))
         | Some c \<Rightarrow>
             (let (_, s2) = addTimer E a (additionalAnswerWaitTimeInMs c) s1;
                  s3 = await E a 0 (arrivals E (trace s2)) s2;
                  s4 = (if this_fulfill (actions s3 a) = Some Unsettled
                        then showAnswers_timer E a c s3 else s3)
              in (settled_outcome a s4, s4)))"

definition do_ShowWrongAnswer ::
  "env \<Rightarrow> aref \<Rightarrow> bool \<Rightarrow> state \<Rightarrow> aref option outcome \<times> state" where
  "do_ShowWrongAnswer E a skipped s =
     (let session = this_session (actions s a);
          shownCard = currentCard E (trace s) session
      in thenP
           (catchP
              (perform E (Notify (SessionSender session) (ShowWrongAnswer skipped))
                 (record_call (GetCurrentCard session) s))
              (\<lambda>err s. case shownCard of
                          None \<Rightarrow> (Threw ''TypeError: cannot read properties of undefined'', s)
                        | Some c \<Rightarrow>
                            (Resolved (),
                             logFailure (''Failed to show timeout message for '' @ question c)
                               (Some err) s)))
           (\<lambda>_ s. seqS (ask E (CheckTooManyWrongAnswers session) s)
              (\<lambda>tooMany s.
                 if tooMany
                 then (let (next, s') = new_action EndQuizTooManyWrongAnswersAction session s
                       in (Resolved (Some next), s'))
                 else (case shownCard of
                         None \<Rightarrow> (Threw ''TypeError: cannot read properties of undefined'', s)
                       | Some c \<Rightarrow>
                           (let (askQuestion, s1) = new_action AskQuestionAction session s;
                                (next, s2) =
                                  new_action
                                    (WaitAction (newQuestionDelayAfterUnansweredInMs c)
                                       askQuestion)
                                    session s1
                            in (Resolved (Some next), s2))))))"

text \<open>
  The promise that \<^verbatim>\<open>AskQuestionAction.do\<close> creates once the question is shown: the
  executor, the wait, and the callback of the answer-deadline timer.
\<close>

definition askQuestion_deadline :: "env \<Rightarrow> aref \<Rightarrow> state \<Rightarrow> state" where
  "askQuestion_deadline E a s =
     (let session = this_session (actions s a)
      in case invoke E (MarkCurrentCardUnanswered session) s of
           (Threw err, s') \<Rightarrow> settle a (Failed err) s'
         | (_, s') \<Rightarrow>
             (let (next, s2) = new_action (ShowWrongAnswerAction False) session s'
              in settle a (Fulfilled (Some next)) s2))"

definition askQuestion_promise ::
  "env \<Rightarrow> aref \<Rightarrow> card \<Rightarrow> state \<Rightarrow> aref option outcome \<times> state" where
  "askQuestion_promise E a usable s =
     (let s1 = set_fulfill a s;
          (k, s3) = (case addTimer E a (answerTimeLimitInMs usable) s1 of
                       (True, s2) \<Rightarrow> scheduleReveal E a (numberOfReveals usable) s2
                     | (False, s2) \<Rightarrow> (0, s2));
          s4 = await E a k (arrivals E (trace s3)) s3;
          s5 = (if this_fulfill (actions s4 a) = Some Unsettled
                then askQuestion_deadline E a s4 else s4)
      in (settled_outcome a s5, s5))"

fun do_AskQuestion :: "env \<Rightarrow> nat \<Rightarrow> aref \<Rightarrow> state \<Rightarrow> aref option outcome \<times> state" where
  "do_AskQuestion E 0 a s = (NoFuel, s)"
| "do_AskQuestion E (Suc n) a s =
     (let session = this_session (actions s a)
      in seqS (of_sreply (nextCard E (trace s) session), record_call (GetNextCard session) s)
           (\<lambda>next s.
              case next of
                None \<Rightarrow>
                  (let (ending, s') = new_action EndQuizNoQuestionsLeftAction session s
                   in (Resolved (Some ending), s'))
              | Some nc \<Rightarrow>
                  thenP
                    (if wasPreprocessed nc then (Resolved (Some nc), s)
                     else (of_reply (preprocess E (trace s) nc), record_call (Preprocess nc) s))
                    (\<lambda>preprocessed s.
                       case preprocessed of
                         None \<Rightarrow> do_AskQuestion E n a s
                       | Some c \<Rightarrow>
                           (let usable = c\<lparr>wasPreprocessed := True\<rparr>
                            in seqS (invoke E (SetCurrentCard session usable) s)
                                 (\<lambda>_ s.
                                    thenP
                                      (thenP
                                         (of_reply (createQuestion E (trace s) usable session),
                                          record_call (CreateQuestion usable session)
                                            (s\<lparr>actions := (actions s)(a :=
                                                 (actions s a)\<lparr>this_readyForAnswers := True\<rparr>)\<rparr>))
                                         (\<lambda>q s.
                                            catchP
                                              (retryPromise
                                                 (\<lambda>s. (map_outcome Some
                                                          (of_reply
                                                             (showQuestion E (trace s) session q)),
                                                        record_call
                                                          (ShowQuestion session q None) s))
                                                 3 s)
                                              (\<lambda>err s.
                                                 (Resolved None,
                                                  logFailure ''Error showing question''
                                                    (Some err) s))))
                                      (\<lambda>shownQuestionId s.
                                         askQuestion_promise E a usable
                                           (s\<lparr>actions := (actions s)(a :=
                                                (actions s a)\<lparr>this_shownQuestionId :=
                                                                shownQuestionId\<rparr>)\<rparr>)))))))"

definition do_AskInitialQuestion :: "env \<Rightarrow> aref \<Rightarrow> state \<Rightarrow> aref option outcome \<times> state" where
  "do_AskInitialQuestion E a s = seqS (invoke E GetRandomWord s) (\<lambda>word s. (Resolved None, s))"

definition do_Start :: "env \<Rightarrow> aref \<Rightarrow> state \<Rightarrow> aref option outcome \<times> state" where
  "do_Start E a s =
     (let session = this_session (actions s a)
      in thenP
           (catchP
              (perform E (Notify (SessionSender session) (NotifyStarting INITIAL_DELAY_IN_MS)) s)
              (\<lambda>err s. (Resolved (),
                 logFailure ''Error showing starting message'' (Some err) s)))
           (\<lambda>_ s. (let (askQuestionAction, s1) = new_action AskInitialQuestionAction session s;
                       (next, s2) =
                         new_action (WaitAction INITIAL_DELAY_IN_MS askQuestionAction) session s1
                   in (Resolved (Some next), s2))))"

definition do_Wait :: "env \<Rightarrow> aref \<Rightarrow> nat \<Rightarrow> aref \<Rightarrow> state \<Rightarrow> aref option outcome \<times> state" where
  "do_Wait E a waitInterval nextAction s =
     (let s1 = set_fulfill a s;
          (_, s2) = addTimer E a waitInterval s1;
          s3 = await E a 0 (arrivals E (trace s2)) s2;
          s4 = (if this_fulfill (actions s3 a) = Some Unsettled
                then settle a (Fulfilled (Some nextAction)) s3 else s3)
      in (settled_outcome a s4, s4))"

definition do_Save :: "env \<Rightarrow> aref \<Rightarrow> userId \<Rightarrow> state \<Rightarrow> aref option outcome \<times> state" where
  "do_Save E a savingUserId s =
     (let session = this_session (actions s a)
      in catchP
           (thenP
              (thenP (closeSession E (Some session) False s)
                 (\<lambda>_ s. seqS (invoke E (CreateSaveData session) s)
                          (\<lambda>saveData s. perform E (Save session savingUserId) s)))
              (\<lambda>_ s. apfst (map_outcome (\<lambda>_. None))
                       (catchP (perform E (Notify (SessionSender session) NotifySaveSuccessful) s)
                          (\<lambda>err s. (Resolved (),
                             logFailure ''Error sending quiz save message'' (Some err) s)))))
           (\<lambda>err s. (let (next, s') =
                           new_action EndQuizForErrorAction session
                             (logFailure ''Error saving'' (Some err) s)
                     in (Resolved (Some next), s'))))"

text \<open>\<^verbatim>\<open>action.do()\<close>, dispatched on the class of the object.\<close>

definition do_action :: "env \<Rightarrow> nat \<Rightarrow> aref \<Rightarrow> state \<Rightarrow> aref option outcome \<times> state" where
  "do_action E n a s =
     (case cls (actions s a) of
        EndQuizForErrorAction \<Rightarrow> do_EndQuizForError E a s
      | EndQuizScoreLimitReachedAction \<Rightarrow> do_EndQuizScoreLimitReached E a s
      | EndQuizNoQuestionsLeftAction \<Rightarrow> do_EndQuizNoQuestionsLeft E a s
      | EndQuizTooManyWrongAnswersAction \<Rightarrow> do_EndQuizTooManyWrongAnswers E a s
      | ShowAnswersAction \<Rightarrow> do_ShowAnswers E a s
      | ShowWrongAnswerAction skipped \<Rightarrow> do_ShowWrongAnswer E a skipped s
      | AskQuestionAction \<Rightarrow> do_AskQuestion E n a s
      | AskInitialQuestionAction \<Rightarrow> do_AskInitialQuestion E a s
      | StartAction \<Rightarrow> do_Start E a s
      | WaitAction waitInterval nextAction \<Rightarrow> do_Wait E a waitInterval nextAction s
      | SaveAction savingUserId \<Rightarrow> do_Save E a savingUserId s
      | EndQuizForErrorAction_noSession \<Rightarrow> do_EndQuizForError_noSession E a s)"

section \<open>The driver\<close>

text \<open>
  \<^verbatim>\<open>chainActions\<close>. The three branches on what the registry holds at the location are
  the value of \<^verbatim>\<open>session\<close>: nothing, a session, or an inherited property of the table.
  In the last case every method call on \<^verbatim>\<open>session\<close> is a TypeError.
\<close>

fun chainActions ::
  "env \<Rightarrow> nat \<Rightarrow> locationId \<Rightarrow> aref option \<Rightarrow> state \<Rightarrow> nat option outcome \<times> state" where
  "chainActions E 0 locationId action s = (NoFuel, s)"
| "chainActions E (Suc n) locationId action s =
     (case action of
        None \<Rightarrow> (Resolved None, s)
      | Some a \<Rightarrow>
          (case lookup (sessionForLocationId s) locationId of
             Absent \<Rightarrow> (Resolved None, s)
           | Own session \<Rightarrow>
               tryS
                 (\<lambda>s. catchP
                    (thenP (do_action E n a s)
                       (\<lambda>result s. seqS (invoke E (ClearTimers session) s)
                                     (\<lambda>_ s. chainActions E n locationId result s)))
                    (\<lambda>err s.
                       (let (recovery, s') =
                              new_action EndQuizForErrorAction session
                                (logFailure ''Error'' (Some err) s)
                        in thenP (chainActions E n locationId (Some recovery) s')
                             (\<lambda>_ s. (Resolved (Some END_STATUS_ERROR), s)))))
                 (\<lambda>err s.
                    thenP
                      (endQuiz E True (Some session) (SessionSender session)
                         NotifyQuizEndedError
                         (logFailure ''Error in chainActions. Closing the session.''
                            (Some err) s))
                      (\<lambda>_ s. (Resolved (Some END_STATUS_ERROR), s)))
                 (s\<lparr>currentActionForLocationId :=
                      (currentActionForLocationId s)(locationId \<mapsto> a)\<rparr>)
           | Inherited \<Rightarrow>
               tryS
                 (\<lambda>s. catchP
                    (thenP (do_action E n a s)
                       (\<lambda>result s.
                          (Threw ''TypeError: session.clearTimers is not a function'', s)))
                    (\<lambda>err s.
                       (let (recovery, s') =
                              new_action EndQuizForErrorAction_noSession 0
                                (logFailure ''Error'' (Some err) s)
                        in thenP (chainActions E n locationId (Some recovery) s')
                             (\<lambda>_ s. (Resolved (Some END_STATUS_ERROR), s)))))
                 (\<lambda>err s.
                    (Threw ''TypeError: session.getMessageSender is not a function'',
                     logFailure ''Error in chainActions. Closing the session.'' (Some err) s))
                 (s\<lparr>currentActionForLocationId :=
                      (currentActionForLocationId s)(locationId \<mapsto> a)\<rparr>)))"

section \<open>The exported manager\<close>

definition startSession ::
  "env \<Rightarrow> nat \<Rightarrow> sref \<Rightarrow> locationId \<Rightarrow> state \<Rightarrow> nat option outcome \<times> state" where
  "startSession E fuel session locationId s =
     seqS (verifySessionNotInProgress locationId s)
       (\<lambda>_ s. seqS (setSessionForLocationId session locationId s)
          (\<lambda>_ s. (let (start, s') = new_action StartAction session s
                  in chainActions E fuel locationId (Some start) s')))"

section \<open>Views of the driver and of traces\<close>

text \<open>
  Names for parts of the definitions above, used to state the theorems: the statement
  of \<open>chainActions\<close> that records the current action, its three handlers, the part of
  \<open>endQuiz\<close> that stops and forgets the current action, and the number of
  notifications in a trace. Lemmas \<open>chainActions_step\<close> and \<open>endQuiz_unfold\<close> show
  that the definitions above are built from them.
\<close>

definition setCurrent :: "locationId \<Rightarrow> aref \<Rightarrow> state \<Rightarrow> state" where
  "setCurrent locationId a s =
     s\<lparr>currentActionForLocationId := (currentActionForLocationId s)(locationId \<mapsto> a)\<rparr>"

definition onResolved ::
  "env \<Rightarrow> nat \<Rightarrow> locationId \<Rightarrow> sref \<Rightarrow> aref option \<Rightarrow> state \<Rightarrow> nat option outcome \<times> state" where
  "onResolved E n locationId session result s =
     seqS (invoke E (ClearTimers session) s) (\<lambda>_ s. chainActions E n locationId result s)"

definition onRejected ::
  "env \<Rightarrow> nat \<Rightarrow> locationId \<Rightarrow> sref \<Rightarrow> fault \<Rightarrow> state \<Rightarrow> nat option outcome \<times> state" where
  "onRejected E n locationId session err s =
     (let (recovery, s') =
            new_action EndQuizForErrorAction session (logFailure ''Error'' (Some err) s)
      in thenP (chainActions E n locationId (Some recovery) s')
           (\<lambda>_ s. (Resolved (Some END_STATUS_ERROR), s)))"

definition onThrown :: "env \<Rightarrow> sref \<Rightarrow> fault \<Rightarrow> state \<Rightarrow> nat option outcome \<times> state" where
  "onThrown E session err s =
     thenP
       (endQuiz E True (Some session) (SessionSender session) NotifyQuizEndedError
          (logFailure ''Error in chainActions. Closing the session.'' (Some err) s))
       (\<lambda>_ s. (Resolved (Some END_STATUS_ERROR), s))"

definition stopCurrent :: "locationId \<Rightarrow> state \<Rightarrow> state" where
  "stopCurrent locationId s =
     (case lookup (currentActionForLocationId s) locationId of
        Absent \<Rightarrow> s
      | Inherited \<Rightarrow> s
      | Own a \<Rightarrow>
          (let s' = (if has_stop (cls (actions s a)) then stop a s else s)
           in s'\<lparr>currentActionForLocationId :=
                   (currentActionForLocationId s')(locationId := None)\<rparr>))"

definition notifications :: "call list \<Rightarrow> nat" where
  "notifications t = length (filter (\<lambda>c. case c of Notify _ _ \<Rightarrow> True | _ \<Rightarrow> False) t)"

text \<open>
  What a theorem may assume of a collaborator call: that it completes (it returns,
  throws or rejects, at every point of the trace), that it settles (it returns or
  rejects), or that it faults (it throws or rejects).
\<close>

definition completes :: "env \<Rightarrow> call \<Rightarrow> bool" where
  "completes E c = (\<forall>t. effect E t c \<noteq> Hangs)"



section \<open>Concrete environments and states\<close>

text \<open>
  The environment in which every collaborator call succeeds, the deck is empty and
  nothing arrives from outside; the identifier \<^verbatim>\<open>messageSender\<close> is unbound, as in the
  file on its own.
\<close>

definition quiet :: env where
  "quiet =
     \<lparr>effect = (\<lambda>t c. Returns ()), answer = (\<lambda>t c. Gives False),
      nextCard = (\<lambda>t s. Gives None), currentCard = (\<lambda>t s. None),
      preprocess = (\<lambda>t c. Returns (Some c)), createQuestion = (\<lambda>t c s. Returns ''q''),
      createTextQuestionWithHint = (\<lambda>t s. Returns None),
      showQuestion = (\<lambda>t s q. Returns 0),
      getSaveMementos = (\<lambda>t u. Returns []), messageSenderBound = False,
      arrivals = (\<lambda>t. []), toLowerCase = (\<lambda>x. x)\<rparr>"

definition quizSession :: session where
  "quizSession =
     \<lparr>getLocationId = ''L'', getOwnerId = ''owner'', getName = ''quiz'',
      getGameMode = \<lparr>isReviewMode = False, onlyOwnerOrAdminCanStop = False\<rparr>,
      saveRequestedByUserId = None\<rparr>"

definition blank :: "action_class \<Rightarrow> action" where
  "blank c =
     \<lparr>cls = c, this_session = 0, this_fulfill = None, this_readyForAnswers = False,
      this_shownQuestionId = None\<rparr>"

text \<open>No session anywhere; every session reference denotes \<open>quizSession\<close>.\<close>

definition fresh :: state where
  "fresh =
     \<lparr>sessionForLocationId = Map.empty, currentActionForLocationId = Map.empty,
      sessions = (\<lambda>_. quizSession), actions = (\<lambda>_. blank StartAction), nextRef = 0,
      trace = []\<rparr>"

text \<open>Session 0 registered at its location, and action object 0 of the given class.\<close>

definition registered :: "action_class \<Rightarrow> state" where
  "registered c =
     fresh\<lparr>sessionForLocationId := [''L'' \<mapsto> 0], actions := (\<lambda>_. blank c), nextRef := 1\<rparr>"

definition neko :: card where
  "neko =
     \<lparr>question = ''neko'', wasPreprocessed = False, answerTimeLimitInMs = 16000,
      numberOfReveals = 1, additionalAnswerWaitTimeInMs = 2000,
      newQuestionDelayAfterAnsweredInMs = 3000, newQuestionDelayAfterUnansweredInMs = 3000\<rparr>"

text \<open>A deck whose next card is \<open>neko\<close>, and a preprocessing that has not settled.\<close>

definition stalling :: env where
  "stalling = quiet\<lparr>nextCard := (\<lambda>t s. Gives (Some neko)), preprocess := (\<lambda>t c. Hangs)\<rparr>"

text \<open>The state in which the driver has started an AskQuestionAction that preprocesses.\<close>

definition preprocessing :: state where
  "preprocessing =
     snd (chainActions stalling (Suc (Suc 0)) ''L'' (Some 0) (registered AskQuestionAction))"

text \<open>Environments in which one collaborator call fails.\<close>

definition timerFails :: env where
  "timerFails =
     quiet\<lparr>effect := (\<lambda>t c. if c = AddTimer 0 5000 then Throws ''boom'' else Returns ())\<rparr>"

definition startFails :: env where
  "startFails =
     quiet\<lparr>effect := (\<lambda>t c. if c = Notify (SessionSender 0) (NotifyStarting 5000)
                               then Throws ''boom'' else Returns ())\<rparr>"


text \<open>The requester already has five saved games.\<close>

definition fullSaves :: env where
  "fullSaves = quiet\<lparr>getSaveMementos := (\<lambda>t u. Returns [''1'', ''2'', ''3'', ''4'', ''5''])\<rparr>"

text \<open>A save is pending for the registered session.\<close>

definition savePending :: state where
  "savePending =
     (registered AskQuestionAction)
       \<lparr>sessions := (\<lambda>_. quizSession\<lparr>saveRequestedByUserId := Some ''owner''\<rparr>)\<rparr>"

text \<open>An AskQuestionAction that has shown its question and waits on its promise.\<close>

definition awaitingAnswer :: state where
  "awaitingAnswer =
     (registered AskQuestionAction)
       \<lparr>currentActionForLocationId := [''L'' \<mapsto> 0],
        actions := (\<lambda>_. (blank AskQuestionAction)
                          \<lparr>this_fulfill := Some Unsettled, this_readyForAnswers := True\<rparr>)\<rparr>"

text \<open>An EndQuizForErrorAction that the driver has made the current action.\<close>

definition errorEnding :: state where
  "errorEnding = setCurrent ''L'' 0 (registered EndQuizForErrorAction)"

text \<open>The registered session is a review-mode session.\<close>

definition reviewing :: state where
  "reviewing =
     (registered AskQuestionAction)
       \<lparr>sessions := (\<lambda>_. quizSession\<lparr>getGameMode :=
            \<lparr>isReviewMode = True, onlyOwnerOrAdminCanStop = False\<rparr>\<rparr>)\<rparr>"

text \<open>\<^verbatim>\<open>clearTimers\<close>, respectively \<^verbatim>\<open>getClientDelegate\<close>, throws.\<close>

definition clearFails :: env where
  "clearFails =
     quiet\<lparr>effect := (\<lambda>t c. if c = ClearTimers 0 then Throws ''boom'' else Returns ())\<rparr>"

definition delegateFails :: env where
  "delegateFails =
     quiet\<lparr>effect := (\<lambda>t c. if c = GetClientDelegate 0 then Throws ''boom'' else Returns ())\<rparr>"




text \<open>
  The next card is \<open>neko\<close>, the reveal timer fires once while the question is open,
  and building the hint throws.
\<close>

definition revealFails :: env where
  "revealFails =
     quiet\<lparr>nextCard := (\<lambda>t s. Gives (Some neko)), arrivals := (\<lambda>t. [RevealTimerFires]),
           createTextQuestionWithHint := (\<lambda>t s. Throws ''boom'')\<rparr>"

text \<open>
  The next card is \<open>neko\<close>, building its question has not settled, and the session
  accepts every answer.
\<close>

definition questionPending :: env where
  "questionPending =
     quiet\<lparr>nextCard := (\<lambda>t s. Gives (Some neko)), createQuestion := (\<lambda>t c s. Hangs),
           answer := (\<lambda>t c. Gives True)\<rparr>"

text \<open>
  The state in which the driver has started an AskQuestionAction that has set its card
  as the current card and waits for the question to be built.
\<close>

definition preparing :: state where
  "preparing =
     snd (chainActions questionPending (Suc (Suc 0)) ''L'' (Some 0) (registered AskQuestionAction))"

section \<open>Evaluation rules\<close>

declare chainActions.simps [simp del]

lemmas promise_defs =
  thenP_def catchP_def tryS_def seqS_def absorb_def of_reply_def of_sreply_def
  perform_def invoke_def ask_def record_call_def logFailure_def logSuccess_def

lemmas example_defs = quiet_def quizSession_def blank_def fresh_def registered_def

lemmas eval_defs =
  do_action_def promise_defs example_defs chainActions.simps Let_def set_fulfill_def
  addTimer_def settle_def settled_outcome_def new_action_def setCurrent_def stop_def
  has_stop_def lookup_def inherited_def

section \<open>Reading the registry\<close>

lemma lookup_Some [simp]: "table k = Some v \<Longrightarrow> lookup table k = Own v"
  by (simp add: lookup_def)

lemma lookup_None [simp]: "table k = None \<Longrightarrow> \<not> inherited k \<Longrightarrow> lookup table k = Absent"
  by (simp add: lookup_def)

lemma lookup_Own_iff [simp]: "lookup table k = Own v \<longleftrightarrow> table k = Some v"
  by (simp add: lookup_def split: option.splits)

lemma lookup_Absent_iff [simp]: "lookup table k = Absent \<longleftrightarrow> table k = None \<and> \<not> inherited k"
  by (simp add: lookup_def split: option.splits)

lemma lookup_Inherited_iff [simp]: "lookup table k = Inherited \<longleftrightarrow> table k = None \<and> inherited k"
  by (simp add: lookup_def split: option.splits)

lemma retryPromise_3:
  "retryPromise f 3 s =
     (case f s of
        (Rejected e, s') \<Rightarrow>
          absorb (case f s' of (Rejected e, s'') \<Rightarrow> absorb (f s'') | r \<Rightarrow> r)
      | r \<Rightarrow> r)"
  by (simp add: numeral_3_eq_3 split: prod.splits outcome.splits)

section \<open>Closing a session\<close>

lemma notifications_simps [simp]:
  "notifications [] = 0"
  "notifications (Notify n d # t) = Suc (notifications t)"
  "notifications (Finalize sid g # t) = notifications t"
  "notifications (LogFailure m e # t) = notifications t"
  "notifications (LogSuccess m # t) = notifications t"
  "notifications (ClearTimers sid # t) = notifications t"
  "notifications (GetClientDelegate sid # t) = notifications t"
  "notifications (xs @ ys) = notifications xs + notifications ys"
  "notifications (replicate k (Notify n d)) = k"
  by (simp_all add: notifications_def)

lemma retry_perform:
  "\<exists>k r. 1 \<le> k \<and> k \<le> 3 \<and> retryPromise (perform E c) 3 s = (r, s\<lparr>trace := replicate k c @ trace s\<rparr>)
     \<and> r \<noteq> NoFuel \<and> ((\<forall>t. effect E t c \<noteq> Hangs) \<longrightarrow> r \<noteq> Pending)"
proof (cases "effect E (trace s) c")
  case (Rejects e)
  show ?thesis
  proof (cases "effect E (c # trace s) c")
    case (Rejects e2)
    show ?thesis
      apply (rule exI[of _ 3])
      using \<open>effect E (trace s) c = Rejects e\<close> Rejects
      by (cases "effect E (c # c # trace s) c") (auto simp: retryPromise_3 promise_defs numeral_3_eq_3 dest: spec[of _ "c # c # trace s"])
  next
    case (Throws e)
    then show ?thesis using \<open>effect E (trace s) c = Rejects _\<close>
      by (intro exI[of _ 2]) (auto simp: retryPromise_3 promise_defs numeral_2_eq_2  dest: spec[of _ "c # trace s"])
  next
    case (Returns e)
    then show ?thesis using \<open>effect E (trace s) c = Rejects _\<close>
      by (intro exI[of _ 2]) (auto simp: retryPromise_3 promise_defs numeral_2_eq_2 dest: spec[of _ "c # trace s"])
  next
    case Hangs
    then show ?thesis using \<open>effect E (trace s) c = Rejects _\<close>
      by (intro exI[of _ 2]) (auto simp: retryPromise_3 promise_defs numeral_2_eq_2 dest: spec[of _ "c # trace s"])
  qed
qed (auto simp: retryPromise_3 promise_defs intro!: exI[of _ 1])


lemma stopCurrent_frame:
  "trace (stopCurrent l s) = trace s" "sessions (stopCurrent l s) = sessions s"
  "sessionForLocationId (stopCurrent l s) = sessionForLocationId s"
  "currentActionForLocationId (stopCurrent l s) = (currentActionForLocationId s)(l := None)"
  "nextRef (stopCurrent l s) = nextRef s"
  by (auto simp: stopCurrent_def stop_def settle_def Let_def lookup_def split: option.splits)

lemma closeSession_Some:
  "closeSession E (Some sid) g s =
     (of_reply (effect E (trace s) (Finalize sid g)),
      s\<lparr>sessionForLocationId := (sessionForLocationId s)(getLocationId (sessions s sid) := None),
        currentActionForLocationId := (currentActionForLocationId s)(getLocationId (sessions s sid) := None),
        trace := Finalize sid g # trace s\<rparr>)"
  by (simp add: closeSession_def perform_def record_call_def Let_def)

lemma endQuiz_unfold:
  "endQuiz E g (Some sid) nt d s =
     tryS
       (\<lambda>s. thenP
          (catchP
             (retryPromise (perform E (Notify nt d)) 3 s)
             (\<lambda>err s. (Resolved (),
                logFailure ''Error ending quiz. Continuing and closing session.''
                  (Some err) s)))
          (\<lambda>_. closeSession E (Some sid) True))
       (\<lambda>err s. closeSession E (Some sid) True
          (logFailure ''Error ending quiz. Continuing and closing session.''
             (Some err) s))
       (stopCurrent (getLocationId (sessions s sid)) s)"
  by (simp add: endQuiz_def stopCurrent_def Let_def)


lemma endQuiz_closes:
  assumes loc: "getLocationId (sessions s sid) = loc"
    and nohang: "completes E (Notify nt d)"
  shows "\<exists>r s' new. endQuiz E g (Some sid) nt d s = (r, s')
           \<and> sessionForLocationId s' = (sessionForLocationId s)(loc := None)
           \<and> currentActionForLocationId s' = (currentActionForLocationId s)(loc := None)
           \<and> sessions s' = sessions s \<and> nextRef s' = nextRef s
           \<and> trace s' = Finalize sid True # new @ trace s \<and> 1 \<le> notifications new
           \<and> notifications new \<le> 3
           \<and> (effect E (new @ trace s) (Finalize sid True) = Returns () \<longrightarrow> r = Resolved ())
           \<and> (\<forall>f. effect E (new @ trace s) (Finalize sid True) = Rejects f \<longrightarrow> r = Rejected f)
           \<and> r \<noteq> NoFuel"
proof -
  let ?c = "Notify nt d"
  have eq: "endQuiz E g (Some sid) nt d s =
      tryS
                (\<lambda>s. thenP
                   (catchP
                      (retryPromise (perform E ?c) 3 s)
                      (\<lambda>err s. (Resolved (),
                         logFailure ''Error ending quiz. Continuing and closing session.''
                           (Some err) s)))
                   (\<lambda>_. closeSession E (Some sid) True))
                (\<lambda>err s. closeSession E (Some sid) True
                   (logFailure ''Error ending quiz. Continuing and closing session.''
                      (Some err) s))
                (stopCurrent loc s)"
    using endQuiz_unfold [of E g sid nt d s] loc by simp
  obtain k r0 where k: "1 \<le> k" "k \<le> 3"
    and r0: "retryPromise (perform E ?c) 3 (stopCurrent loc s) = (r0, (stopCurrent loc s)\<lparr>trace := replicate k ?c @ trace (stopCurrent loc s)\<rparr>)"
      "r0 \<noteq> NoFuel" "r0 \<noteq> Pending"
    using retry_perform[of E ?c "stopCurrent loc s"] nohang unfolding completes_def by blast
  obtain r s' where rs: "endQuiz E g (Some sid) nt d s = (r, s')"
    by force
  let ?log = "LogFailure ''Error ending quiz. Continuing and closing session.''"
  have "\<exists>new. sessionForLocationId s' = (sessionForLocationId s)(loc := None)
           \<and> currentActionForLocationId s' = (currentActionForLocationId s)(loc := None)
           \<and> sessions s' = sessions s \<and> nextRef s' = nextRef s
           \<and> trace s' = Finalize sid True # new @ trace s \<and> 1 \<le> notifications new
           \<and> notifications new \<le> 3
           \<and> (effect E (new @ trace s) (Finalize sid True) = Returns () \<longrightarrow> r = Resolved ())
           \<and> (\<forall>f. effect E (new @ trace s) (Finalize sid True) = Rejects f \<longrightarrow> r = Rejected f)
           \<and> r \<noteq> NoFuel"
  proof (cases r0)
    case (Resolved u)
    with k r0 loc rs show ?thesis
      by (intro exI[of _ "replicate k ?c"])
        (auto simp: eq tryS_def thenP_def catchP_def absorb_def closeSession_Some
          stopCurrent_frame of_reply_def split: reply.splits)
  next
    case (Rejected x)
    with k r0 loc rs show ?thesis
      by (intro exI[of _ "?log (Some x) # replicate k ?c"])
        (auto simp: eq tryS_def thenP_def catchP_def absorb_def closeSession_Some
          stopCurrent_frame of_reply_def logFailure_def record_call_def split: reply.splits)
  next
    case (Threw x)
    with k r0 loc rs show ?thesis
      by (intro exI[of _ "?log (Some x) # replicate k ?c"])
        (auto simp: eq tryS_def thenP_def catchP_def absorb_def closeSession_Some
          stopCurrent_frame of_reply_def logFailure_def record_call_def split: reply.splits)
  qed (use r0 in auto)
  with rs show ?thesis by blast
qed



lemma closeAndRethrow_closes:
  assumes loc: "getLocationId (sessions s sid) = loc"
  shows "\<exists>r s' new. closeAndRethrow E sid err s = (r, s')
           \<and> sessionForLocationId s' = (sessionForLocationId s)(loc := None)
           \<and> currentActionForLocationId s' = (currentActionForLocationId s)(loc := None)
           \<and> sessions s' = sessions s \<and> actions s' = actions s \<and> nextRef s' = nextRef s
           \<and> trace s' = new @ trace s \<and> Finalize sid True \<in> set new \<and> notifications new = 0
           \<and> r \<noteq> NoFuel \<and> r \<noteq> Resolved v"
proof -
  let ?log = "LogFailure ''Error ending quiz gracefully for error. Attempting to close session.'' None"
  obtain r s' where rs: "closeAndRethrow E sid err s = (r, s')"
    by force
  show ?thesis
  proof (cases "effect E (?log # trace s) (Finalize sid True)")
    case (Returns u)
    with rs loc show ?thesis
      by (intro exI[of _ r] exI[of _ s'] exI[of _ "[LogSuccess ''Session closed successfully.'', Finalize sid True, ?log]"])
        (auto simp: closeAndRethrow_def closeSession_Some promise_defs)
  next
    case (Throws f)
    with rs loc show ?thesis
      by (intro exI[of _ r] exI[of _ s'] exI[of _ "[Finalize sid True, ?log]"])
        (auto simp: closeAndRethrow_def closeSession_Some promise_defs)
  next
    case (Rejects f)
    with rs loc show ?thesis
      by (intro exI[of _ r] exI[of _ s'] exI[of _ "[Finalize sid True, ?log]"])
        (auto simp: closeAndRethrow_def closeSession_Some promise_defs)
  next
    case Hangs
    with rs loc show ?thesis
      by (intro exI[of _ r] exI[of _ s'] exI[of _ "[Finalize sid True, ?log]"])
        (auto simp: closeAndRethrow_def closeSession_Some promise_defs)
  qed
qed


lemma absorb_cases:
  "absorb (r, s) = ((case r of Threw e \<Rightarrow> Rejected e | _ \<Rightarrow> r), s)"
  by (simp add: absorb_def split: outcome.splits)

lemma do_EndQuizForError_cases:
  "do_EndQuizForError E a s =
     (let sid = this_session (actions s a);
          s0 = record_call (GetClientDelegate sid) (logFailure ''Stopping for error'' None s)
      in case effect E (LogFailure ''Stopping for error'' None # trace s) (GetClientDelegate sid) of
           Throws e \<Rightarrow> closeAndRethrow E sid e s0
         | _ \<Rightarrow>
           if \<not> messageSenderBound E
           then closeAndRethrow E sid ''ReferenceError: messageSender is not defined'' s0
           else tryS (\<lambda>s. catchP (apfst (map_outcome (\<lambda>_. None))
                         (endQuiz E True (Some sid) GlobalSender NotifyQuizEndedError s))
                      (closeAndRethrow E sid)) (closeAndRethrow E sid) s0)"
  by (simp add: do_EndQuizForError_def promise_defs Let_def split: reply.splits)

lemma do_EndQuizForError_closes:
  assumes sid: "this_session (actions s a) = sid"
    and loc: "getLocationId (sessions s sid) = loc"
    and nohang: "completes E (Notify GlobalSender NotifyQuizEndedError)"
  shows "\<exists>r s' new. do_EndQuizForError E a s = (r, s')
           \<and> sessionForLocationId s' = (sessionForLocationId s)(loc := None)
           \<and> currentActionForLocationId s' = (currentActionForLocationId s)(loc := None)
           \<and> sessions s' = sessions s \<and> nextRef s' = nextRef s
           \<and> trace s' = new @ trace s \<and> Finalize sid True \<in> set new \<and> notifications new \<le> 3
           \<and> r \<noteq> NoFuel"
proof -
  let ?s0 = "record_call (GetClientDelegate sid) (logFailure ''Stopping for error'' None s)"
  let ?pre = "[GetClientDelegate sid, LogFailure ''Stopping for error'' None]"
  have s0: "trace ?s0 = ?pre @ trace s" "sessions ?s0 = sessions s"
    "sessionForLocationId ?s0 = sessionForLocationId s" "nextRef ?s0 = nextRef s"
    "currentActionForLocationId ?s0 = currentActionForLocationId s"
    by (simp_all add: promise_defs)
  have loc0: "getLocationId (sessions ?s0 sid) = loc"
    using loc by (simp add: s0)
  have rethrow: "\<exists>r s' new. closeAndRethrow E sid e ?s0 = (r, s')
           \<and> sessionForLocationId s' = (sessionForLocationId s)(loc := None)
           \<and> currentActionForLocationId s' = (currentActionForLocationId s)(loc := None)
           \<and> sessions s' = sessions s \<and> nextRef s' = nextRef s
           \<and> trace s' = new @ trace s \<and> Finalize sid True \<in> set new \<and> notifications new \<le> 3
           \<and> r \<noteq> NoFuel" for e
  proof -
    obtain r s' new where "closeAndRethrow E sid e ?s0 = (r, s')"
      "sessionForLocationId s' = (sessionForLocationId ?s0)(loc := None)"
      "currentActionForLocationId s' = (currentActionForLocationId ?s0)(loc := None)"
      "sessions s' = sessions ?s0" "nextRef s' = nextRef ?s0"
      "trace s' = new @ trace ?s0" "Finalize sid True \<in> set new" "notifications new = 0"
      "r \<noteq> NoFuel"
      using closeAndRethrow_closes [OF loc0, of E e] by blast
    then show ?thesis
      by (intro exI[of _ r] exI[of _ s'] exI[of _ "new @ ?pre"]) (simp add: s0)
  qed
  show ?thesis
  proof (cases "\<exists>e. effect E (LogFailure ''Stopping for error'' None # trace s) (GetClientDelegate sid) = Throws e")
    case True
    then obtain e where "effect E (LogFailure ''Stopping for error'' None # trace s) (GetClientDelegate sid) = Throws e" ..
    then have "do_EndQuizForError E a s = closeAndRethrow E sid e ?s0"
      by (simp add: do_EndQuizForError_def sid promise_defs)
    with rethrow [of e] show ?thesis by simp
  next
    case noThrow: False
    show ?thesis
    proof (cases "messageSenderBound E")
      case False
      with noThrow have "do_EndQuizForError E a s =
          closeAndRethrow E sid ''ReferenceError: messageSender is not defined'' ?s0"
        by (simp add: do_EndQuizForError_def sid promise_defs split: reply.splits)
      with rethrow show ?thesis by simp
    next
      case True
      obtain r1 s1 new1 where e1: "endQuiz E True (Some sid) GlobalSender NotifyQuizEndedError ?s0 = (r1, s1)"
        and f1: "sessionForLocationId s1 = (sessionForLocationId ?s0)(loc := None)"
          "currentActionForLocationId s1 = (currentActionForLocationId ?s0)(loc := None)"
          "sessions s1 = sessions ?s0" "nextRef s1 = nextRef ?s0"
          "trace s1 = Finalize sid True # new1 @ trace ?s0" "notifications new1 \<le> 3" "r1 \<noteq> NoFuel"
        using endQuiz_closes [OF loc0 nohang, of True] by blast
      from True noThrow have eq: "do_EndQuizForError E a s =
         tryS (\<lambda>s. catchP (apfst (map_outcome (\<lambda>_. None))
                   (endQuiz E True (Some sid) GlobalSender NotifyQuizEndedError s))
                (closeAndRethrow E sid)) (closeAndRethrow E sid) ?s0"
        by (simp add: do_EndQuizForError_def sid promise_defs split: reply.splits)
      have loc1: "getLocationId (sessions s1 sid) = loc"
        using loc f1 by (simp add: s0)
      obtain r2 s2 new2 where e2: "\<And>e. \<exists>r2 s2 new2. closeAndRethrow E sid e s1 = (r2, s2) \<and>
        sessionForLocationId s2 = (sessionForLocationId s1)(loc := None) \<and>
        currentActionForLocationId s2 = (currentActionForLocationId s1)(loc := None) \<and>
        sessions s2 = sessions s1 \<and> nextRef s2 = nextRef s1 \<and>
        trace s2 = new2 @ trace s1 \<and> Finalize sid True \<in> set new2 \<and> notifications new2 = 0 \<and>
        r2 \<noteq> NoFuel"
        using closeAndRethrow_closes [OF loc1, of E] by blast
      show ?thesis
      proof (cases r1)
        case (Resolved u)
        with e1 f1 show ?thesis
          by (intro exI[of _ "Resolved None"] exI[of _ s1] exI[of _ "Finalize sid True # new1 @ ?pre"])
            (simp add: eq tryS_def catchP_def s0)
      next
        case Pending
        with e1 f1 show ?thesis
          by (intro exI[of _ "Pending"] exI[of _ s1] exI[of _ "Finalize sid True # new1 @ ?pre"])
            (simp add: eq tryS_def catchP_def s0)
      next
        case NoFuel
        with f1 show ?thesis by simp
      next
        case (Threw f)
        obtain r2 s2 new2 where "closeAndRethrow E sid f s1 = (r2, s2)"
          "sessionForLocationId s2 = (sessionForLocationId s1)(loc := None)"
          "currentActionForLocationId s2 = (currentActionForLocationId s1)(loc := None)"
          "sessions s2 = sessions s1" "nextRef s2 = nextRef s1"
          "trace s2 = new2 @ trace s1" "Finalize sid True \<in> set new2" "notifications new2 = 0"
          "r2 \<noteq> NoFuel"
          using e2 [of f] by blast
        with Threw e1 f1 show ?thesis
          by (intro exI[of _ r2] exI[of _ s2] exI[of _ "new2 @ Finalize sid True # new1 @ ?pre"])
            (simp add: eq tryS_def catchP_def s0)
      next
        case (Rejected f)
        obtain r2 s2 new2 where "closeAndRethrow E sid f s1 = (r2, s2)"
          "sessionForLocationId s2 = (sessionForLocationId s1)(loc := None)"
          "currentActionForLocationId s2 = (currentActionForLocationId s1)(loc := None)"
          "sessions s2 = sessions s1" "nextRef s2 = nextRef s1"
          "trace s2 = new2 @ trace s1" "Finalize sid True \<in> set new2" "notifications new2 = 0"
          "r2 \<noteq> NoFuel"
          using e2 [of f] by blast
        with Rejected e1 f1 show ?thesis
          by (intro exI[of _ "case r2 of Threw e \<Rightarrow> Rejected e | _ \<Rightarrow> r2"] exI[of _ s2]
                exI[of _ "new2 @ Finalize sid True # new1 @ ?pre"])
            (simp add: eq tryS_def catchP_def s0 absorb_cases split: outcome.splits)
      qed
    qed
  qed
qed


section \<open>One step of the driver, and the recovery chain\<close>

lemma chainActions_step:
  assumes "sessionForLocationId s locationId = Some session"
  shows "chainActions E (Suc n) locationId (Some a) s =
           tryS (\<lambda>s. catchP (thenP (do_action E n a s) (onResolved E n locationId session))
                       (onRejected E n locationId session))
             (onThrown E session) (setCurrent locationId a s)"
  using assms
  by (simp add: onResolved_def [abs_def] onRejected_def [abs_def] onThrown_def [abs_def]
      setCurrent_def chainActions.simps)



lemma new_action_frame:
  "sessionForLocationId (snd (new_action c sid s)) = sessionForLocationId s"
  "currentActionForLocationId (snd (new_action c sid s)) = currentActionForLocationId s"
  "sessions (snd (new_action c sid s)) = sessions s"
  "trace (snd (new_action c sid s)) = trace s"
  "fst (new_action c sid s) = nextRef s"
  by (simp_all add: new_action_def)

lemma absorb_not_Threw [simp]: "absorb x \<noteq> (Threw e, s)"
  by (cases x) (auto simp: absorb_def split: outcome.splits)


text \<open>
  A status with which the rest of a chain resolves is the status of the whole chain:
  the handlers of the enclosing calls leave it alone.
\<close>

lemma chainActions_passes_status:
  assumes reg: "sessionForLocationId s loc = Some session"
    and run: "do_action E n a (setCurrent loc a s) = (Resolved result, s1)"
    and clear: "\<forall>e. effect E (trace s1) (ClearTimers session) \<noteq> Throws e"
    and rest: "chainActions E n loc result (record_call (ClearTimers session) s1)
                 = (Resolved st, s')"
  shows "chainActions E (Suc n) loc (Some a) s = (Resolved st, s')"
  using clear
  by (simp add: chainActions_step [OF reg] run rest tryS_def thenP_def catchP_def absorb_def
      onResolved_def seqS_def invoke_def split: reply.splits)

section \<open>The state of an action that preprocesses its card\<close>

lemma preprocessing_facts:
  "currentActionForLocationId preprocessing ''L'' = Some 0"
  "cls (actions preprocessing 0) = AskQuestionAction"
  "\<not> this_readyForAnswers (actions preprocessing 0)"
  "this_fulfill (actions preprocessing 0) = None"
  "trace preprocessing = [Preprocess neko, GetNextCard 0]"
  by (simp_all add: preprocessing_def stalling_def neko_def example_defs do_action_def
      promise_defs chainActions.simps lookup_def)

section \<open>The chain that startSession begins\<close>

text \<open>
  C1. The chain that \<open>startSession\<close> begins on an unregistered location, in the
  environment where every collaborator call succeeds: Start, Wait, AskInitialQuestion,
  and then the driver halts on the missing next action. The chain has returned with
  the status \<^verbatim>\<open>undefined\<close>; the session is still registered, the AskInitialQuestion
  object is still the current action of the location, and the trace holds no call of
  \<^verbatim>\<open>finalize\<close> and no end-of-quiz notification. More fuel does not change the run.
\<close>

theorem startSession_chain_halts_registered:
  "fst (startSession quiet (Suc (Suc (Suc (Suc n)))) 0 ''L'' fresh) = Resolved None
   \<and> sessionForLocationId (snd (startSession quiet (Suc (Suc (Suc (Suc n)))) 0 ''L'' fresh)) ''L''
       = Some 0
   \<and> currentActionForLocationId
        (snd (startSession quiet (Suc (Suc (Suc (Suc n)))) 0 ''L'' fresh)) ''L'' = Some 1
   \<and> cls (actions (snd (startSession quiet (Suc (Suc (Suc (Suc n)))) 0 ''L'' fresh)) 1)
       = AskInitialQuestionAction
   \<and> trace (snd (startSession quiet (Suc (Suc (Suc (Suc n)))) 0 ''L'' fresh)) =
       [ClearTimers 0, GetRandomWord, ClearTimers 0, AddTimer 0 5000, ClearTimers 0,
        Notify (SessionSender 0) (NotifyStarting 5000)]"
  by (simp add: startSession_def verifySessionNotInProgress_def assert_def
      isSessionInProgressAtLocation_def setSessionForLocationId_def new_action_def
      do_action_def do_Start_def promise_defs example_defs do_Wait_def Let_def
      chainActions.simps
      set_fulfill_def addTimer_def settle_def settled_outcome_def do_AskInitialQuestion_def
      INITIAL_DELAY_IN_MS_def lookup_def inherited_def)

text \<open>
  C3. Executing an AskInitialQuestionAction never yields a next action, in any
  environment and any state: \<^verbatim>\<open>do\<close> fetches a random word and returns nothing, so the
  result is \<^verbatim>\<open>undefined\<close>, or the exception of the word source. An AskQuestionAction
  is not produced.
\<close>

theorem do_AskInitialQuestion_yields_nothing:
  assumes "cls (actions s a) = AskInitialQuestionAction"
  shows "do_action E n a s =
           ((case effect E (trace s) GetRandomWord of Throws e \<Rightarrow> Threw e | _ \<Rightarrow> Resolved None),
            record_call GetRandomWord s)
         \<and> fst (do_action E n a s) \<noteq> Resolved (Some next)"
  using assms
  by (simp add: do_action_def do_AskInitialQuestion_def seqS_def invoke_def
      split: reply.splits)

theorem do_AskInitialQuestion_yields_nothing_witness:
  "cls (actions (registered AskInitialQuestionAction) 0) = AskInitialQuestionAction
   \<and> do_action quiet 1 0 (registered AskInitialQuestionAction) =
       (Resolved None, record_call GetRandomWord (registered AskInitialQuestionAction))
   \<and> fst (do_action quiet 1 0 (registered AskInitialQuestionAction)) \<noteq> Resolved (Some 1)"
proof -
  have h: "cls (actions (registered AskInitialQuestionAction) 0) = AskInitialQuestionAction"
    by (simp add: example_defs)
  have e: "effect quiet (trace (registered AskInitialQuestionAction)) GetRandomWord = Returns ()"
    by (simp add: quiet_def)
  from h e do_AskInitialQuestion_yields_nothing [OF h, of quiet 1 1]
  show ?thesis by simp
qed

section \<open>Faults of an action\<close>




section \<open>The error-ending action\<close>




section \<open>Saving\<close>

text \<open>
  C5, as amended. \<open>saveQuizCommand\<close> resolves with false and changes nothing when the
  location has no session and its id is not a name that the registry object inherits;
  for a review-mode session, and for a requester who is not the owner, it only sends
  the refusal (the registry and the sessions are unchanged).
  Otherwise it fetches the mementos of the requester, and then: if a save is already
  pending it does nothing more, also when the requester has five saved games; else
  if the requester has fewer than five it records the requester as the pending-save
  owner and acknowledges; else it sends the no-space notification. Two requests of a
  user with a non-empty id whose mementos are both fetched before either callback
  runs set the pending-save owner once: the second callback changes nothing.

  The second conjunct is the remaining case of the lookup: at an inherited name
  without a session, what the table answers is not a session, and the command throws
  a TypeError with the state unchanged.
\<close>

theorem saveQuizCommand_cases:
  "(sessionForLocationId s loc = None \<and> \<not> inherited loc \<longrightarrow>
      saveQuizCommand E loc u s = (Resolved (Some False), s))
   \<and> (sessionForLocationId s loc = None \<and> inherited loc \<longrightarrow>
      saveQuizCommand E loc u s
        = (Threw ''TypeError: session.getGameMode is not a function'', s))
   \<and> (\<forall>sid. sessionForLocationId s loc = Some sid
              \<and> isReviewMode (getGameMode (sessions s sid)) \<longrightarrow>
         snd (saveQuizCommand E loc u s)
           = record_call (Notify (SessionSender sid) NotifySaveFailedIsReview) s)
   \<and> (\<forall>sid. sessionForLocationId s loc = Some sid
              \<and> \<not> isReviewMode (getGameMode (sessions s sid))
              \<and> u \<noteq> getOwnerId (sessions s sid) \<longrightarrow>
         snd (saveQuizCommand E loc u s)
           = record_call (Notify (SessionSender sid) NotifySaveFailedNotOwner) s)
   \<and> (\<forall>sid mementos. sessionForLocationId s loc = Some sid
              \<and> \<not> isReviewMode (getGameMode (sessions s sid))
              \<and> u = getOwnerId (sessions s sid)
              \<and> getSaveMementos E (trace s) u = Returns mementos \<longrightarrow>
         snd (saveQuizCommand E loc u s) =
           (if truthy (saveRequestedByUserId (sessions s sid))
            then record_call (GetSaveMementos u) s
            else if length mementos < 5
            then record_call (Notify (SessionSender sid) NotifySaving)
                   ((record_call (GetSaveMementos u) s)
                      \<lparr>sessions := (sessions s)(sid :=
                          (sessions s sid)\<lparr>saveRequestedByUserId := Some u\<rparr>)\<rparr>)
            else record_call (Notify (SessionSender sid) (NotifySaveFailedNoSpace 5))
                   (record_call (GetSaveMementos u) s)))
   \<and> (\<forall>sid first second. u \<noteq> [] \<and> \<not> truthy (saveRequestedByUserId (sessions s sid))
              \<and> length first < 5 \<longrightarrow>
         saveRequestedByUserId
           (sessions (snd (saveQuizCommand_then E sid u first s)) sid) = Some u
         \<and> saveQuizCommand_then E sid u second (snd (saveQuizCommand_then E sid u first s))
             = (Resolved None, snd (saveQuizCommand_then E sid u first s)))"
  by (auto simp: saveQuizCommand_def saveQuizCommand_then_def promise_defs truthy_def
      MAX_SAVES_PER_USER_def Let_def lookup_def split: reply.splits)

theorem saveQuizCommand_cases_witness:
  "sessionForLocationId fresh ''L'' = None \<and> \<not> inherited ''L''
   \<and> saveQuizCommand quiet ''L'' ''owner'' fresh = (Resolved (Some False), fresh)
   \<and> sessionForLocationId fresh ''constructor'' = None \<and> inherited ''constructor''
   \<and> saveQuizCommand quiet ''constructor'' ''owner'' fresh
       = (Threw ''TypeError: session.getGameMode is not a function'', fresh)
   \<and> sessionForLocationId reviewing ''L'' = Some 0
   \<and> isReviewMode (getGameMode (sessions reviewing 0))
   \<and> snd (saveQuizCommand quiet ''L'' ''owner'' reviewing)
       = record_call (Notify (SessionSender 0) NotifySaveFailedIsReview) reviewing
   \<and> sessionForLocationId (registered AskQuestionAction) ''L'' = Some 0
   \<and> \<not> isReviewMode (getGameMode (sessions (registered AskQuestionAction) 0))
   \<and> getOwnerId (sessions (registered AskQuestionAction) 0) = ''owner''
   \<and> snd (saveQuizCommand quiet ''L'' ''guest'' (registered AskQuestionAction))
       = record_call (Notify (SessionSender 0) NotifySaveFailedNotOwner)
           (registered AskQuestionAction)
   \<and> getSaveMementos quiet (trace (registered AskQuestionAction)) ''owner'' = Returns []
   \<and> \<not> truthy (saveRequestedByUserId (sessions (registered AskQuestionAction) 0))
   \<and> saveRequestedByUserId
        (sessions (snd (saveQuizCommand quiet ''L'' ''owner'' (registered AskQuestionAction))) 0)
       = Some ''owner''
   \<and> saveQuizCommand_then quiet 0 ''owner'' []
        (snd (saveQuizCommand_then quiet 0 ''owner'' [] (registered AskQuestionAction)))
       = (Resolved None,
          snd (saveQuizCommand_then quiet 0 ''owner'' [] (registered AskQuestionAction)))"
proof -
  let ?s = "registered AskQuestionAction"
  note c = saveQuizCommand_cases [of ?s "''L''" quiet "''owner''"]
  have h: "sessionForLocationId ?s ''L'' = Some 0"
    "\<not> isReviewMode (getGameMode (sessions ?s 0))"
    "getOwnerId (sessions ?s 0) = ''owner''"
    "getSaveMementos quiet (trace ?s) ''owner'' = Returns []"
    "\<not> truthy (saveRequestedByUserId (sessions ?s 0))"
    by (simp_all add: example_defs truthy_def)
  have r: "sessionForLocationId reviewing ''L'' = Some 0"
    "isReviewMode (getGameMode (sessions reviewing 0))"
    by (simp_all add: reviewing_def example_defs)
  have f: "sessionForLocationId fresh ''L'' = None" "\<not> inherited ''L''"
    "sessionForLocationId fresh ''constructor'' = None" "inherited ''constructor''"
    by (simp_all add: example_defs inherited_def)
  have 1: "saveQuizCommand quiet ''L'' ''owner'' fresh = (Resolved (Some False), fresh)"
    using saveQuizCommand_cases [of fresh "''L''" quiet "''owner''", THEN conjunct1] f by simp
  have 0: "saveQuizCommand quiet ''constructor'' ''owner'' fresh
       = (Threw ''TypeError: session.getGameMode is not a function'', fresh)"
    using saveQuizCommand_cases [of fresh "''constructor''" quiet "''owner''", THEN conjunct2,
        THEN conjunct1] f
    by simp
  have 2: "snd (saveQuizCommand quiet ''L'' ''owner'' reviewing)
       = record_call (Notify (SessionSender 0) NotifySaveFailedIsReview) reviewing"
    using saveQuizCommand_cases [of reviewing "''L''" quiet "''owner''", THEN conjunct2,
        THEN conjunct2, THEN conjunct1, rule_format, of 0] r
    by simp
  have 3: "snd (saveQuizCommand quiet ''L'' ''guest'' ?s)
       = record_call (Notify (SessionSender 0) NotifySaveFailedNotOwner) ?s"
    using saveQuizCommand_cases [of ?s "''L''" quiet "''guest''", THEN conjunct2,
        THEN conjunct2, THEN conjunct2, THEN conjunct1, rule_format, of 0] h
    by simp
  have 4: "snd (saveQuizCommand quiet ''L'' ''owner'' ?s) =
          record_call (Notify (SessionSender 0) NotifySaving)
            ((record_call (GetSaveMementos ''owner'') ?s)
               \<lparr>sessions := (sessions ?s)(0 :=
                   (sessions ?s 0)\<lparr>saveRequestedByUserId := Some ''owner''\<rparr>)\<rparr>)"
    using c [THEN conjunct2, THEN conjunct2, THEN conjunct2, THEN conjunct2, THEN conjunct1,
        rule_format, of 0 "[]"] h
    by simp
  have 5: "saveQuizCommand_then quiet 0 ''owner'' []
        (snd (saveQuizCommand_then quiet 0 ''owner'' [] ?s))
       = (Resolved None, snd (saveQuizCommand_then quiet 0 ''owner'' [] ?s))"
    using c [THEN conjunct2, THEN conjunct2, THEN conjunct2, THEN conjunct2, THEN conjunct2,
        rule_format, of 0 "[]" "[]"] h
    by simp
  from 0 1 2 3 4 5 h r f show ?thesis by (simp add: record_call_def)
qed

text \<open>
  The claim as stated says that a requester who already has five saved games is told
  that there is no space. Here a save is pending and the owner has five saved games:
  the command fetches the mementos and sends nothing.
\<close>

theorem saveQuizCommand_pending_and_full_counterexample:
  "sessionForLocationId savePending ''L'' = Some 0
   \<and> getOwnerId (sessions savePending 0) = ''owner''
   \<and> getSaveMementos fullSaves (trace savePending) ''owner'' = Returns [''1'', ''2'', ''3'', ''4'', ''5'']
   \<and> saveQuizCommand fullSaves ''L'' ''owner'' savePending
       = (Resolved None, record_call (GetSaveMementos ''owner'') savePending)
   \<and> trace (snd (saveQuizCommand fullSaves ''L'' ''owner'' savePending)) = [GetSaveMementos ''owner'']"
  by (simp add: saveQuizCommand_def saveQuizCommand_then_def promise_defs truthy_def
      MAX_SAVES_PER_USER_def fullSaves_def savePending_def example_defs lookup_def)

section \<open>Starting a session\<close>



section \<open>The End-Quiz actions\<close>

text \<open>
  Executing any of the four End-Quiz actions, in an environment whose notifications
  complete: at most three notifications are sent, \<^verbatim>\<open>finalize(true)\<close> is called on the
  session, and afterwards the location of the session has neither a session nor a
  current action. The three actions that notify through the sender of the session
  send at least one notification.
\<close>

lemma endQuiz_variants_close:
  assumes cls: "cls (actions s a) = EndQuizForErrorAction
      \<or> cls (actions s a) = EndQuizScoreLimitReachedAction
      \<or> cls (actions s a) = EndQuizNoQuestionsLeftAction
      \<or> cls (actions s a) = EndQuizTooManyWrongAnswersAction"
    and sid: "this_session (actions s a) = sid"
    and nohang: "\<forall>nt d. completes E (Notify nt d)"
  shows "\<exists>r s' new. do_action E n a s = (r, s') \<and> trace s' = new @ trace s
           \<and> notifications new \<le> 3
           \<and> (cls (actions s a) = EndQuizForErrorAction \<or> 1 \<le> notifications new)
           \<and> Finalize sid True \<in> set new
           \<and> sessionForLocationId s' (getLocationId (sessions s sid)) = None
           \<and> currentActionForLocationId s' (getLocationId (sessions s sid)) = None
           \<and> r \<noteq> NoFuel"
proof -
  have other: ?thesis
    if c: "cls (actions s a) \<noteq> EndQuizForErrorAction"
      and d: "do_action E n a s = apfst (map_outcome (\<lambda>_. None))
                (endQuiz E True (Some sid) (SessionSender sid) d s)" for d
  proof -
    have "completes E (Notify (SessionSender sid) d)"
      using nohang by simp
    then obtain r s' new where "endQuiz E True (Some sid) (SessionSender sid) d s = (r, s')"
      "sessionForLocationId s' = (sessionForLocationId s)(getLocationId (sessions s sid) := None)"
      "currentActionForLocationId s' = (currentActionForLocationId s)(getLocationId (sessions s sid) := None)"
      "trace s' = Finalize sid True # new @ trace s" "1 \<le> notifications new"
      "notifications new \<le> 3" "r \<noteq> NoFuel"
      using endQuiz_closes [OF refl, where E = E and nt = "SessionSender sid" and d = d
          and g = True and s = s and sid = sid] by blast
    with c d show ?thesis
      by (intro exI[of _ "map_outcome (\<lambda>_. None) r"] exI[of _ s']
            exI[of _ "Finalize sid True # new"])
        (cases r; simp)
  qed
  from cls show ?thesis
  proof (elim disjE)
    assume c: "cls (actions s a) = EndQuizForErrorAction"
    have "completes E (Notify GlobalSender NotifyQuizEndedError)"
      using nohang by simp
    then obtain r s' new where "do_EndQuizForError E a s = (r, s')"
      "sessionForLocationId s' = (sessionForLocationId s)(getLocationId (sessions s sid) := None)"
      "currentActionForLocationId s' = (currentActionForLocationId s)(getLocationId (sessions s sid) := None)"
      "trace s' = new @ trace s" "Finalize sid True \<in> set new" "notifications new \<le> 3"
      "r \<noteq> NoFuel"
      using do_EndQuizForError_closes [OF sid refl, of E] by blast
    with c show ?thesis
      by (intro exI[of _ r] exI[of _ s'] exI[of _ new]) (simp add: do_action_def)
  next
    assume c: "cls (actions s a) = EndQuizScoreLimitReachedAction"
    then show ?thesis
      by (intro other) (simp_all add: do_action_def do_EndQuizScoreLimitReached_def sid)
  next
    assume c: "cls (actions s a) = EndQuizNoQuestionsLeftAction"
    then show ?thesis
      by (intro other) (simp_all add: do_action_def do_EndQuizNoQuestionsLeft_def sid)
  next
    assume c: "cls (actions s a) = EndQuizTooManyWrongAnswersAction"
    then show ?thesis
      by (intro other) (simp_all add: do_action_def do_EndQuizTooManyWrongAnswers_def sid)
  qed
qed

text \<open>
  C7. The claim says that every End-Quiz variant attempts its notification. The error
  variant does not, in the file as it stands: \<^verbatim>\<open>EndQuizForErrorAction.do\<close> declares
  \<^verbatim>\<open>clientDelegate\<close> and then passes \<^verbatim>\<open>messageSender\<close>, an identifier that the file does
  not declare, to \<open>endQuiz\<close>. Where the identifier is unbound, executing the action
  sends no notification at all: the ReferenceError is caught, the session is closed
  (\<^verbatim>\<open>finalize(true)\<close> is called and the registry entries are removed), and the action
  faults. The other three variants notify through \<^verbatim>\<open>session.getMessageSender()\<close>
  (\<open>endQuiz_variants_close\<close>).
\<close>

theorem do_EndQuizForError_sends_no_notification:
  assumes cls: "cls (actions s a) = EndQuizForErrorAction"
    and unbound: "\<not> messageSenderBound E"
  shows "\<exists>r s' new. do_action E n a s = (r, s') \<and> trace s' = new @ trace s
           \<and> notifications new = 0
           \<and> (\<forall>c \<in> set new. \<forall>nt d. c \<noteq> Notify nt d)
           \<and> Finalize (this_session (actions s a)) True \<in> set new
           \<and> sessionForLocationId s'
                (getLocationId (sessions s (this_session (actions s a)))) = None
           \<and> currentActionForLocationId s'
                (getLocationId (sessions s (this_session (actions s a)))) = None
           \<and> (\<forall>v. r \<noteq> Resolved v)"
proof -
  let ?sid = "this_session (actions s a)"
  let ?s0 = "record_call (GetClientDelegate ?sid) (logFailure ''Stopping for error'' None s)"
  let ?pre = "[GetClientDelegate ?sid, LogFailure ''Stopping for error'' None]"
  have s0: "trace ?s0 = ?pre @ trace s" "sessions ?s0 = sessions s"
    "sessionForLocationId ?s0 = sessionForLocationId s"
    "currentActionForLocationId ?s0 = currentActionForLocationId s"
    by (simp_all add: promise_defs)
  have loc0: "getLocationId (sessions ?s0 ?sid) = getLocationId (sessions s ?sid)"
    by (simp add: s0)
  obtain e where eq: "do_EndQuizForError E a s = closeAndRethrow E ?sid e ?s0"
    using unbound by (cases "effect E (LogFailure ''Stopping for error'' None # trace s)
        (GetClientDelegate ?sid)") (simp_all add: do_EndQuizForError_cases Let_def)
  let ?log = "LogFailure ''Error ending quiz gracefully for error. Attempting to close session.'' None"
  have shape: "\<exists>r s' new. closeAndRethrow E ?sid e ?s0 = (r, s') \<and> trace s' = new @ trace ?s0
      \<and> (\<forall>c \<in> set new. \<forall>nt d. c \<noteq> Notify nt d) \<and> notifications new = 0
      \<and> Finalize ?sid True \<in> set new
      \<and> sessionForLocationId s' = (sessionForLocationId ?s0)(getLocationId (sessions s ?sid) := None)
      \<and> currentActionForLocationId s'
           = (currentActionForLocationId ?s0)(getLocationId (sessions s ?sid) := None)
      \<and> (\<forall>v. r \<noteq> Resolved v)"
    by (cases "effect E (?log # trace ?s0) (Finalize ?sid True)")
      (auto simp: closeAndRethrow_def closeSession_Some promise_defs)
  then obtain r s' new where c: "closeAndRethrow E ?sid e ?s0 = (r, s')"
    "trace s' = new @ trace ?s0" "\<forall>c \<in> set new. \<forall>nt d. c \<noteq> Notify nt d"
    "notifications new = 0" "Finalize ?sid True \<in> set new"
    "sessionForLocationId s' = (sessionForLocationId ?s0)(getLocationId (sessions s ?sid) := None)"
    "currentActionForLocationId s'
           = (currentActionForLocationId ?s0)(getLocationId (sessions s ?sid) := None)"
    "\<forall>v. r \<noteq> Resolved v"
    by blast
  then show ?thesis using cls
    by (intro exI[of _ r] exI[of _ s'] exI[of _ "new @ ?pre"])
      (simp add: do_action_def eq s0)
qed

theorem do_EndQuizForError_sends_no_notification_witness:
  "cls (actions errorEnding 0) = EndQuizForErrorAction
   \<and> \<not> messageSenderBound quiet
   \<and> fst (do_action quiet 0 0 errorEnding)
       = Rejected ''ReferenceError: messageSender is not defined''
   \<and> trace (snd (do_action quiet 0 0 errorEnding)) =
       [LogSuccess ''Session closed successfully.'', Finalize 0 True,
        LogFailure ''Error ending quiz gracefully for error. Attempting to close session.'' None,
        GetClientDelegate 0, LogFailure ''Stopping for error'' None]
   \<and> notifications (trace (snd (do_action quiet 0 0 errorEnding))) = 0
   \<and> sessionForLocationId (snd (do_action quiet 0 0 errorEnding)) ''L'' = None
   \<and> currentActionForLocationId (snd (do_action quiet 0 0 errorEnding)) ''L'' = None"
proof -
  have h: "cls (actions errorEnding 0) = EndQuizForErrorAction" "\<not> messageSenderBound quiet"
    "this_session (actions errorEnding 0) = 0" "getLocationId (sessions errorEnding 0) = ''L''"
    "trace errorEnding = []"
    by (simp_all add: errorEnding_def setCurrent_def example_defs)
  have t: "fst (do_action quiet 0 0 errorEnding)
       = Rejected ''ReferenceError: messageSender is not defined''"
    "trace (snd (do_action quiet 0 0 errorEnding)) =
       [LogSuccess ''Session closed successfully.'', Finalize 0 True,
        LogFailure ''Error ending quiz gracefully for error. Attempting to close session.'' None,
        GetClientDelegate 0, LogFailure ''Stopping for error'' None]"
    by (simp_all add: errorEnding_def eval_defs do_EndQuizForError_def closeAndRethrow_def
        closeSession_def)
  from do_EndQuizForError_sends_no_notification [OF h(1,2), of 0] h t
  show ?thesis by auto
qed

section \<open>Timers between actions\<close>

text \<open>
  C8, as amended. When the execution of an action resolves with \<open>result\<close>, the next
  thing the driver does is to call \<^verbatim>\<open>clearTimers\<close> on the session; the chain on
  \<open>result\<close> starts from the state that records this call. If \<^verbatim>\<open>clearTimers\<close> throws,
  \<open>result\<close> is not executed and the error handler runs. Otherwise, if \<open>result\<close> is an
  action and the location still has a session, that action becomes current and is
  executed in a state whose latest call is the \<^verbatim>\<open>clearTimers\<close> of the driver.

  When the execution of an action faults, the driver does not call \<^verbatim>\<open>clearTimers\<close>
  before it starts the error ending. After a rejection with \<open>e\<close> it logs \<open>e\<close>, creates
  an EndQuizForErrorAction and runs the chain on it; if the location still has a
  session, this action becomes current and is executed in a state whose latest call
  is the log entry. After a synchronous throw it logs the fault and calls \<open>endQuiz\<close>.
\<close>

theorem chainActions_clears_timers_first:
  assumes reg: "sessionForLocationId s loc = Some session"
    and run: "do_action E n a (setCurrent loc a s) = (r, s1)"
  shows "(\<forall>result. r = Resolved result \<longrightarrow>
           chainActions E (Suc n) loc (Some a) s =
             catchP (absorb (onResolved E n loc session result s1)) (onRejected E n loc session)
           \<and> onResolved E n loc session result s1 =
               (case effect E (trace s1) (ClearTimers session) of
                  Throws e \<Rightarrow> (Threw e, record_call (ClearTimers session) s1)
                | _ \<Rightarrow> chainActions E n loc result (record_call (ClearTimers session) s1))
           \<and> (\<forall>e. effect E (trace s1) (ClearTimers session) = Throws e \<longrightarrow>
                 chainActions E (Suc n) loc (Some a) s =
                   absorb (onRejected E n loc session e (record_call (ClearTimers session) s1)))
           \<and> (\<forall>m a' session'.
                 n = Suc m \<and> result = Some a' \<and> sessionForLocationId s1 loc = Some session'
                 \<and> (\<forall>e. effect E (trace s1) (ClearTimers session) \<noteq> Throws e) \<longrightarrow>
                 chainActions E n loc result (record_call (ClearTimers session) s1) =
                   tryS (\<lambda>s. catchP (thenP (do_action E m a' s) (onResolved E m loc session'))
                                (onRejected E m loc session'))
                     (onThrown E session')
                     (setCurrent loc a' (record_call (ClearTimers session) s1))
                 \<and> trace (setCurrent loc a' (record_call (ClearTimers session) s1))
                     = ClearTimers session # trace s1))
       \<and> (\<forall>e. r = Rejected e \<longrightarrow>
           chainActions E (Suc n) loc (Some a) s = absorb (onRejected E n loc session e s1)
           \<and> onRejected E n loc session e s1 =
               thenP (chainActions E n loc (Some (nextRef s1))
                        (snd (new_action EndQuizForErrorAction session
                                (logFailure ''Error'' (Some e) s1))))
                 (\<lambda>_ s. (Resolved (Some END_STATUS_ERROR), s))
           \<and> (\<forall>m session'. n = Suc m \<and> sessionForLocationId s1 loc = Some session' \<longrightarrow>
                 chainActions E n loc (Some (nextRef s1))
                   (snd (new_action EndQuizForErrorAction session
                           (logFailure ''Error'' (Some e) s1))) =
                   tryS (\<lambda>s. catchP (thenP (do_EndQuizForError E (nextRef s1) s)
                                         (onResolved E m loc session'))
                                (onRejected E m loc session'))
                     (onThrown E session')
                     (setCurrent loc (nextRef s1)
                        (snd (new_action EndQuizForErrorAction session
                                (logFailure ''Error'' (Some e) s1))))
                 \<and> trace (setCurrent loc (nextRef s1)
                             (snd (new_action EndQuizForErrorAction session
                                     (logFailure ''Error'' (Some e) s1))))
                     = LogFailure ''Error'' (Some e) # trace s1))
       \<and> (\<forall>e. r = Threw e \<longrightarrow>
           chainActions E (Suc n) loc (Some a) s = onThrown E session e s1
           \<and> onThrown E session e s1 =
               thenP (endQuiz E True (Some session) (SessionSender session) NotifyQuizEndedError
                        (record_call
                           (LogFailure ''Error in chainActions. Closing the session.'' (Some e))
                           s1))
                 (\<lambda>_ s. (Resolved (Some END_STATUS_ERROR), s)))"
proof (intro conjI allI impI)
  fix result assume res: "r = Resolved result"
  show a: "chainActions E (Suc n) loc (Some a) s =
           catchP (absorb (onResolved E n loc session result s1)) (onRejected E n loc session)"
    by (simp add: chainActions_step [OF reg] run res tryS_def thenP_def catchP_def
        split: prod.splits outcome.splits)
  show b: "onResolved E n loc session result s1 =
             (case effect E (trace s1) (ClearTimers session) of
                Throws e \<Rightarrow> (Threw e, record_call (ClearTimers session) s1)
              | _ \<Rightarrow> chainActions E n loc result (record_call (ClearTimers session) s1))"
    by (simp add: onResolved_def seqS_def invoke_def split: reply.splits)
  show "chainActions E (Suc n) loc (Some a) s =
                 absorb (onRejected E n loc session e (record_call (ClearTimers session) s1))"
    if "effect E (trace s1) (ClearTimers session) = Throws e" for e
    using that by (simp add: a b absorb_def catchP_def)
  fix m a' session'
  assume h: "n = Suc m \<and> result = Some a' \<and> sessionForLocationId s1 loc = Some session'
      \<and> (\<forall>e. effect E (trace s1) (ClearTimers session) \<noteq> Throws e)"
  then show "chainActions E n loc result (record_call (ClearTimers session) s1) =
                 tryS (\<lambda>s. catchP (thenP (do_action E m a' s) (onResolved E m loc session'))
                              (onRejected E m loc session'))
                   (onThrown E session')
                   (setCurrent loc a' (record_call (ClearTimers session) s1))"
    using chainActions_step [of "record_call (ClearTimers session) s1" loc session' E m a']
    by (simp add: record_call_def)
  show "trace (setCurrent loc a' (record_call (ClearTimers session) s1))
                   = ClearTimers session # trace s1"
    by (simp add: record_call_def setCurrent_def)
next
  fix e assume rej: "r = Rejected e"
  show "chainActions E (Suc n) loc (Some a) s = absorb (onRejected E n loc session e s1)"
    by (simp add: chainActions_step [OF reg] run rej tryS_def thenP_def catchP_def
        split: prod.splits outcome.splits)
  show "onRejected E n loc session e s1 =
               thenP (chainActions E n loc (Some (nextRef s1))
                        (snd (new_action EndQuizForErrorAction session
                                (logFailure ''Error'' (Some e) s1))))
                 (\<lambda>_ s. (Resolved (Some END_STATUS_ERROR), s))"
    by (simp add: onRejected_def new_action_def logFailure_def record_call_def)
  fix m session'
  let ?s2 = "snd (new_action EndQuizForErrorAction session (logFailure ''Error'' (Some e) s1))"
  assume h: "n = Suc m \<and> sessionForLocationId s1 loc = Some session'"
  then have "sessionForLocationId ?s2 loc = Some session'"
    by (simp add: new_action_frame logFailure_def record_call_def)
  from chainActions_step [OF this, of E m "nextRef s1"] h
  show "chainActions E n loc (Some (nextRef s1)) ?s2 =
          tryS (\<lambda>s. catchP (thenP (do_EndQuizForError E (nextRef s1) s)
                                (onResolved E m loc session'))
                       (onRejected E m loc session'))
            (onThrown E session') (setCurrent loc (nextRef s1) ?s2)"
    by (simp add: do_action_def [abs_def] new_action_def setCurrent_def tryS_def
        logFailure_def record_call_def)
  show "trace (setCurrent loc (nextRef s1) ?s2) = LogFailure ''Error'' (Some e) # trace s1"
    by (simp add: new_action_def logFailure_def record_call_def setCurrent_def)
next
  fix e assume thr: "r = Threw e"
  show "chainActions E (Suc n) loc (Some a) s = onThrown E session e s1"
    by (simp add: chainActions_step [OF reg] run thr tryS_def thenP_def catchP_def)
  show "onThrown E session e s1 =
               thenP (endQuiz E True (Some session) (SessionSender session) NotifyQuizEndedError
                        (record_call
                           (LogFailure ''Error in chainActions. Closing the session.'' (Some e))
                           s1))
                 (\<lambda>_ s. (Resolved (Some END_STATUS_ERROR), s))"
    by (simp add: onThrown_def logFailure_def)
qed

theorem chainActions_clears_timers_first_witness:
  "sessionForLocationId (registered StartAction) ''L'' = Some 0
   \<and> fst (do_action quiet (Suc 0) 0 (setCurrent ''L'' 0 (registered StartAction)))
       = Resolved (Some 2)
   \<and> chainActions quiet (Suc (Suc 0)) ''L'' (Some 0) (registered StartAction) =
       catchP (absorb (onResolved quiet (Suc 0) ''L'' 0 (Some 2)
                 (snd (do_action quiet (Suc 0) 0 (setCurrent ''L'' 0 (registered StartAction))))))
         (onRejected quiet (Suc 0) ''L'' 0)
   \<and> trace (setCurrent ''L'' 2 (record_call (ClearTimers 0)
               (snd (do_action quiet (Suc 0) 0 (setCurrent ''L'' 0 (registered StartAction))))))
       = [ClearTimers 0, Notify (SessionSender 0) (NotifyStarting 5000)]
   \<and> effect clearFails
        (trace (snd (do_action clearFails (Suc 0) 0 (setCurrent ''L'' 0 (registered StartAction)))))
        (ClearTimers 0) = Throws ''boom''
   \<and> chainActions clearFails (Suc (Suc 0)) ''L'' (Some 0) (registered StartAction) =
       absorb (onRejected clearFails (Suc 0) ''L'' 0 ''boom''
                 (record_call (ClearTimers 0)
                    (snd (do_action clearFails (Suc 0) 0
                            (setCurrent ''L'' 0 (registered StartAction))))))
   \<and> sessionForLocationId (registered (WaitAction 5000 1)) ''L'' = Some 0
   \<and> fst (do_action timerFails (Suc 0) 0 (setCurrent ''L'' 0 (registered (WaitAction 5000 1))))
       = Rejected ''boom''
   \<and> chainActions timerFails (Suc (Suc 0)) ''L'' (Some 0) (registered (WaitAction 5000 1)) =
       absorb (onRejected timerFails (Suc 0) ''L'' 0 ''boom''
                 (snd (do_action timerFails (Suc 0) 0
                         (setCurrent ''L'' 0 (registered (WaitAction 5000 1))))))
   \<and> fst (do_action startFails (Suc 0) 0 (setCurrent ''L'' 0 (registered StartAction)))
       = Threw ''boom''
   \<and> chainActions startFails (Suc (Suc 0)) ''L'' (Some 0) (registered StartAction) =
       onThrown startFails 0 ''boom''
         (snd (do_action startFails (Suc 0) 0 (setCurrent ''L'' 0 (registered StartAction))))"
proof -
  let ?s = "registered StartAction"
  let ?w = "registered (WaitAction 5000 1)"
  define s1 where "s1 = snd (do_action quiet (Suc 0) 0 (setCurrent ''L'' 0 ?s))"
  define s2 where "s2 = snd (do_action clearFails (Suc 0) 0 (setCurrent ''L'' 0 ?s))"
  define s3 where "s3 = snd (do_action timerFails (Suc 0) 0 (setCurrent ''L'' 0 ?w))"
  define s4 where "s4 = snd (do_action startFails (Suc 0) 0 (setCurrent ''L'' 0 ?s))"
  have reg: "sessionForLocationId ?s ''L'' = Some 0" "sessionForLocationId ?w ''L'' = Some 0"
    by (simp_all add: example_defs)
  have out: "fst (do_action quiet (Suc 0) 0 (setCurrent ''L'' 0 ?s)) = Resolved (Some 2)"
    by (simp add: eval_defs do_Start_def)
  then have run: "do_action quiet (Suc 0) 0 (setCurrent ''L'' 0 ?s) = (Resolved (Some 2), s1)"
    by (simp add: s1_def prod_eq_iff)
  have s1: "trace s1 = [Notify (SessionSender 0) (NotifyStarting 5000)]"
    by (simp add: s1_def eval_defs do_Start_def INITIAL_DELAY_IN_MS_def)
  have "fst (do_action clearFails (Suc 0) 0 (setCurrent ''L'' 0 ?s)) = Resolved (Some 2)"
    by (simp add: clearFails_def eval_defs do_Start_def)
  then have run2: "do_action clearFails (Suc 0) 0 (setCurrent ''L'' 0 ?s) = (Resolved (Some 2), s2)"
    by (simp add: s2_def prod_eq_iff)
  have thr: "effect clearFails (trace s2) (ClearTimers 0) = Throws ''boom''"
    by (simp add: clearFails_def quiet_def)
  have out3: "fst (do_action timerFails (Suc 0) 0 (setCurrent ''L'' 0 ?w)) = Rejected ''boom''"
    by (simp add: timerFails_def eval_defs do_Wait_def)
  then have run3: "do_action timerFails (Suc 0) 0 (setCurrent ''L'' 0 ?w) = (Rejected ''boom'', s3)"
    by (simp add: s3_def prod_eq_iff)
  have out4: "fst (do_action startFails (Suc 0) 0 (setCurrent ''L'' 0 ?s)) = Threw ''boom''"
    by (simp add: startFails_def eval_defs do_Start_def INITIAL_DELAY_IN_MS_def)
  then have run4: "do_action startFails (Suc 0) 0 (setCurrent ''L'' 0 ?s) = (Threw ''boom'', s4)"
    by (simp add: s4_def prod_eq_iff)
  have 1: "chainActions quiet (Suc (Suc 0)) ''L'' (Some 0) ?s =
       catchP (absorb (onResolved quiet (Suc 0) ''L'' 0 (Some 2) s1))
         (onRejected quiet (Suc 0) ''L'' 0)"
    using chainActions_clears_timers_first [OF reg(1) run, THEN conjunct1, rule_format,
        of "Some 2"]
    by simp
  have 2: "trace (setCurrent ''L'' 2 (record_call (ClearTimers 0) s1))
       = [ClearTimers 0, Notify (SessionSender 0) (NotifyStarting 5000)]"
    by (simp add: setCurrent_def record_call_def s1)
  have 3: "chainActions clearFails (Suc (Suc 0)) ''L'' (Some 0) ?s =
       absorb (onRejected clearFails (Suc 0) ''L'' 0 ''boom'' (record_call (ClearTimers 0) s2))"
    using chainActions_clears_timers_first [OF reg(1) run2, THEN conjunct1, rule_format,
        of "Some 2", THEN conjunct2, THEN conjunct2, THEN conjunct1, rule_format, OF _ thr]
    by simp
  have 4: "chainActions timerFails (Suc (Suc 0)) ''L'' (Some 0) ?w =
       absorb (onRejected timerFails (Suc 0) ''L'' 0 ''boom'' s3)"
    using chainActions_clears_timers_first [OF reg(2) run3, THEN conjunct2, THEN conjunct1,
        rule_format, of "''boom''"]
    by simp
  have 5: "chainActions startFails (Suc (Suc 0)) ''L'' (Some 0) ?s =
       onThrown startFails 0 ''boom'' s4"
    using chainActions_clears_timers_first [OF reg(1) run4, THEN conjunct2, THEN conjunct2,
        rule_format, of "''boom''"]
    by simp
  from reg out 1 2 thr 3 out3 4 out4 5
  show ?thesis unfolding s1_def s2_def s3_def s4_def by blast
qed

text \<open>
  The claim as stated says that the driver clears the timers after each action, before
  the next one starts. Here an AskQuestionAction has set its deadline timer and a
  reveal timer when building the hint throws: the promise of the action rejects, and
  the driver logs the fault and executes a new EndQuizForErrorAction. The trace of
  the whole chain holds the two \<^verbatim>\<open>addTimer\<close> calls and no \<^verbatim>\<open>clearTimers\<close> call.
\<close>

theorem chainActions_fault_skips_clearTimers_counterexample:
  "fst (do_action revealFails (Suc (Suc (Suc 0))) 0
          (setCurrent ''L'' 0 (registered AskQuestionAction))) = Rejected ''boom''
   \<and> fst (chainActions revealFails (Suc (Suc (Suc (Suc 0)))) ''L'' (Some 0)
            (registered AskQuestionAction)) = Resolved (Some END_STATUS_ERROR)
   \<and> trace (snd (chainActions revealFails (Suc (Suc (Suc (Suc 0)))) ''L'' (Some 0)
                   (registered AskQuestionAction))) =
       [LogFailure ''Error'' (Some ''ReferenceError: messageSender is not defined''),
        LogSuccess ''Session closed successfully.'', Finalize 0 True,
        LogFailure ''Error ending quiz gracefully for error. Attempting to close session.'' None,
        GetClientDelegate 0, LogFailure ''Stopping for error'' None,
        LogFailure ''Error'' (Some ''boom''),
        CreateTextQuestionWithHint 0, GetCurrentCard 0, AddTimer 0 8000, AddTimer 0 16000,
        ShowQuestion 0 ''q'' None, CreateQuestion (neko\<lparr>wasPreprocessed := True\<rparr>) 0,
        SetCurrentCard 0 (neko\<lparr>wasPreprocessed := True\<rparr>), Preprocess neko, GetNextCard 0]
   \<and> ClearTimers 0 \<notin> set (trace (snd (chainActions revealFails (Suc (Suc (Suc (Suc 0)))) ''L''
                                         (Some 0) (registered AskQuestionAction))))"
proof -
  have t: "trace (snd (chainActions revealFails (Suc (Suc (Suc (Suc 0)))) ''L'' (Some 0)
                   (registered AskQuestionAction))) =
       [LogFailure ''Error'' (Some ''ReferenceError: messageSender is not defined''),
        LogSuccess ''Session closed successfully.'', Finalize 0 True,
        LogFailure ''Error ending quiz gracefully for error. Attempting to close session.'' None,
        GetClientDelegate 0, LogFailure ''Stopping for error'' None,
        LogFailure ''Error'' (Some ''boom''),
        CreateTextQuestionWithHint 0, GetCurrentCard 0, AddTimer 0 8000, AddTimer 0 16000,
        ShowQuestion 0 ''q'' None, CreateQuestion (neko\<lparr>wasPreprocessed := True\<rparr>) 0,
        SetCurrentCard 0 (neko\<lparr>wasPreprocessed := True\<rparr>), Preprocess neko, GetNextCard 0]"
    by (simp add: revealFails_def neko_def eval_defs askQuestion_promise_def scheduleReveal_def
        reveal_def retryPromise_3 REVEAL_INTERVAL_IN_MS_def do_EndQuizForError_def
        closeAndRethrow_def closeSession_def)
  have r: "fst (do_action revealFails (Suc (Suc (Suc 0))) 0
          (setCurrent ''L'' 0 (registered AskQuestionAction))) = Rejected ''boom''"
    by (simp add: revealFails_def neko_def eval_defs askQuestion_promise_def scheduleReveal_def
        reveal_def retryPromise_3 REVEAL_INTERVAL_IN_MS_def)
  have c: "fst (chainActions revealFails (Suc (Suc (Suc (Suc 0)))) ''L'' (Some 0)
            (registered AskQuestionAction)) = Resolved (Some END_STATUS_ERROR)"
    by (simp add: revealFails_def neko_def eval_defs askQuestion_promise_def scheduleReveal_def
        reveal_def retryPromise_3 REVEAL_INTERVAL_IN_MS_def do_EndQuizForError_def
        closeAndRethrow_def closeSession_def)
  from t r c show ?thesis by simp
qed

section \<open>Skipping\<close>

text \<open>
  C9, as amended. \<open>skipCommand\<close> returns true exactly when the location has a current
  action whose class defines \<^verbatim>\<open>skip\<close>. When the current action is an AskQuestionAction
  whose promise exists and is pending, and marking the card does not throw, the
  command marks the current card unanswered and fulfils the promise with a new
  ShowWrongAnswerAction with skipped = true; no time enters. While the action has
  not created its promise yet, the command returns true and changes nothing.
\<close>

theorem skipCommand_cases:
  "fst (skipCommand E loc s) =
     Resolved (case currentActionForLocationId s loc of
                 None \<Rightarrow> False | Some a \<Rightarrow> has_skip (cls (actions s a)))
   \<and> (\<forall>a. currentActionForLocationId s loc = Some a \<and> cls (actions s a) = AskQuestionAction
           \<and> this_fulfill (actions s a) = Some Unsettled \<and> a \<noteq> nextRef s
           \<and> (\<forall>e. effect E (trace s) (MarkCurrentCardUnanswered (this_session (actions s a)))
                     \<noteq> Throws e) \<longrightarrow>
         trace (snd (skipCommand E loc s))
           = MarkCurrentCardUnanswered (this_session (actions s a)) # trace s
         \<and> settled_outcome a (snd (skipCommand E loc s)) = Resolved (Some (nextRef s))
         \<and> cls (actions (snd (skipCommand E loc s)) (nextRef s)) = ShowWrongAnswerAction True
         \<and> this_session (actions (snd (skipCommand E loc s)) (nextRef s))
             = this_session (actions s a))
   \<and> (\<forall>a. currentActionForLocationId s loc = Some a \<and> cls (actions s a) = AskQuestionAction
           \<and> this_fulfill (actions s a) = None \<longrightarrow>
         skipCommand E loc s = (Resolved True, s))"
  by (auto simp: skipCommand_def skip_def promise_defs has_skip_def new_action_def settle_def
      settled_outcome_def Let_def lookup_def split: option.splits reply.splits)

theorem skipCommand_cases_witness:
  "currentActionForLocationId awaitingAnswer ''L'' = Some 0
   \<and> cls (actions awaitingAnswer 0) = AskQuestionAction
   \<and> this_fulfill (actions awaitingAnswer 0) = Some Unsettled
   \<and> 0 \<noteq> nextRef awaitingAnswer
   \<and> fst (skipCommand quiet ''L'' awaitingAnswer) = Resolved True
   \<and> settled_outcome 0 (snd (skipCommand quiet ''L'' awaitingAnswer)) = Resolved (Some 1)
   \<and> cls (actions (snd (skipCommand quiet ''L'' awaitingAnswer)) 1) = ShowWrongAnswerAction True
   \<and> trace (snd (skipCommand quiet ''L'' awaitingAnswer)) = [MarkCurrentCardUnanswered 0]
   \<and> fst (skipCommand quiet ''L'' fresh) = Resolved False
   \<and> currentActionForLocationId (setCurrent ''L'' 0 (registered AskQuestionAction)) ''L'' = Some 0
   \<and> this_fulfill (actions (setCurrent ''L'' 0 (registered AskQuestionAction)) 0) = None
   \<and> skipCommand quiet ''L'' (setCurrent ''L'' 0 (registered AskQuestionAction))
       = (Resolved True, setCurrent ''L'' 0 (registered AskQuestionAction))"
proof -
  let ?q = "setCurrent ''L'' 0 (registered AskQuestionAction)"
  have h: "currentActionForLocationId awaitingAnswer ''L'' = Some 0"
    "cls (actions awaitingAnswer 0) = AskQuestionAction"
    "this_fulfill (actions awaitingAnswer 0) = Some Unsettled"
    "0 \<noteq> nextRef awaitingAnswer" "nextRef awaitingAnswer = 1"
    "this_session (actions awaitingAnswer 0) = 0" "trace awaitingAnswer = []"
    "\<forall>e. effect quiet (trace awaitingAnswer) (MarkCurrentCardUnanswered 0) \<noteq> Throws e"
    by (simp_all add: awaitingAnswer_def example_defs)
  have q: "currentActionForLocationId ?q ''L'' = Some 0" "cls (actions ?q 0) = AskQuestionAction"
    "this_fulfill (actions ?q 0) = None"
    by (simp_all add: setCurrent_def example_defs)
  have f: "currentActionForLocationId fresh ''L'' = None"
    by (simp add: example_defs)
  have 1: "fst (skipCommand quiet ''L'' fresh) = Resolved False"
    using skipCommand_cases [of quiet "''L''" fresh, THEN conjunct1] f by simp
  have 3: "skipCommand quiet ''L'' ?q = (Resolved True, ?q)"
    using skipCommand_cases [of quiet "''L''" ?q, THEN conjunct2, THEN conjunct2, rule_format,
        of 0] q
    by simp
  from skipCommand_cases [of quiet "''L''" awaitingAnswer] h 1 3 q
  show ?thesis by (simp add: has_skip_def)
qed

text \<open>
  The claim as stated says that skipping during an AskQuestionAction always yields
  the ShowWrongAnswerAction. Here the driver has started an AskQuestionAction that
  waits for the preprocessing of its card: the command returns true, the state is
  unchanged, the card is not marked and the action yields nothing.
\<close>

theorem skipCommand_while_preprocessing_counterexample:
  "currentActionForLocationId preprocessing ''L'' = Some 0
   \<and> cls (actions preprocessing 0) = AskQuestionAction
   \<and> skipCommand quiet ''L'' preprocessing = (Resolved True, preprocessing)
   \<and> settled_outcome 0 preprocessing = Pending
   \<and> trace preprocessing = [Preprocess neko, GetNextCard 0]"
  using preprocessing_facts
  by (simp add: skipCommand_def skip_def has_skip_def tryS_def seqS_def settled_outcome_def)

section \<open>Input before the question is ready\<close>

text \<open>
  While the current action of a location is an AskQuestionAction whose
  \<^verbatim>\<open>readyForAnswers_\<close> is not set, \<open>processUserInput\<close> returns false and changes
  nothing: no answer is offered to the session and the promise of the action is not
  touched, although the class has the input capability. A newly created
  AskQuestionAction has the flag unset, and so has one that waits for the
  preprocessing of its card.
\<close>

lemma processUserInput_flag_unset:
  assumes "currentActionForLocationId s locationId = Some a"
    and "cls (actions s a) = AskQuestionAction"
    and "\<not> this_readyForAnswers (actions s a)"
  shows "has_tryAcceptUserInput (cls (actions s a))
         \<and> processUserInput E locationId userId userName input s = (Resolved False, s)
         \<and> \<not> this_readyForAnswers
               (actions (snd (new_action AskQuestionAction session s))
                  (fst (new_action AskQuestionAction session s)))"
  using assms
  by (simp add: processUserInput_def tryAcceptUserInput_def has_tryAcceptUserInput_def
      new_action_def)

lemma processUserInput_while_preprocessing:
  "processUserInput quiet ''L'' ''u'' ''n'' ''Neko'' preprocessing
     = (Resolved False, preprocessing)"
  using processUserInput_flag_unset [OF preprocessing_facts(1-3), of quiet "''u''" "''n''" "''Neko''"]
  by simp

text \<open>
  C10. The claim says that input is refused until the question is prepared. The guard
  that refuses it is the flag \<^verbatim>\<open>readyForAnswers_\<close>, and \<^verbatim>\<open>AskQuestionAction.do\<close> sets the
  flag right after \<^verbatim>\<open>setCurrentCard\<close>, before it asks the card for its question and before
  it creates the promise whose resolver is \<^verbatim>\<open>this.fulfill_\<close>. Here the driver has started
  the action, the card is the current card and its question is still being built. An
  answer that arrives now is offered to the session, which accepts it, and the action
  then calls \<^verbatim>\<open>this.fulfill_\<close>, which is undefined: \<open>processUserInput\<close> throws a
  TypeError instead of returning false, and the session has recorded the answer.
\<close>

theorem processUserInput_while_question_is_built:
  "fst (chainActions questionPending (Suc (Suc 0)) ''L'' (Some 0) (registered AskQuestionAction))
     = Pending
   \<and> currentActionForLocationId preparing ''L'' = Some 0
   \<and> cls (actions preparing 0) = AskQuestionAction
   \<and> trace preparing =
       [CreateQuestion (neko\<lparr>wasPreprocessed := True\<rparr>) 0,
        SetCurrentCard 0 (neko\<lparr>wasPreprocessed := True\<rparr>), Preprocess neko, GetNextCard 0]
   \<and> this_readyForAnswers (actions preparing 0)
   \<and> this_fulfill (actions preparing 0) = None
   \<and> fst (processUserInput questionPending ''L'' ''u'' ''n'' ''neko'' preparing)
       = Threw ''TypeError: this.fulfill_ is not a function''
   \<and> trace (snd (processUserInput questionPending ''L'' ''u'' ''n'' ''neko'' preparing))
       = TryAcceptAnswer 0 ''u'' ''n'' ''neko'' # trace preparing"
proof -
  have p: "currentActionForLocationId preparing ''L'' = Some 0"
    "cls (actions preparing 0) = AskQuestionAction"
    "trace preparing =
       [CreateQuestion (neko\<lparr>wasPreprocessed := True\<rparr>) 0,
        SetCurrentCard 0 (neko\<lparr>wasPreprocessed := True\<rparr>), Preprocess neko, GetNextCard 0]"
    "this_readyForAnswers (actions preparing 0)"
    "this_fulfill (actions preparing 0) = None"
    "this_session (actions preparing 0) = 0"
    "nextRef preparing \<noteq> 0"
    by (simp_all add: preparing_def questionPending_def neko_def eval_defs)
  have c: "fst (chainActions questionPending (Suc (Suc 0)) ''L'' (Some 0)
                  (registered AskQuestionAction)) = Pending"
    by (simp add: questionPending_def neko_def eval_defs)
  have a: "answer questionPending t c = Gives True" "toLowerCase questionPending x = x" for t c x
    by (simp_all add: questionPending_def quiet_def)
  have i: "processUserInput questionPending ''L'' ''u'' ''n'' ''neko'' preparing
      = (Threw ''TypeError: this.fulfill_ is not a function'',
         snd (new_action ShowAnswersAction 0
                (record_call (TryAcceptAnswer 0 ''u'' ''n'' ''neko'') preparing)))"
    using p
    by (simp add: processUserInput_def tryAcceptUserInput_def has_tryAcceptUserInput_def a
        ask_def of_sreply_def seqS_def Let_def new_action_def record_call_def)
  from p c i show ?thesis
    by (simp add: new_action_def record_call_def)
qed

end
